theory Spec2Isabelle
  imports Complex_Main "HOL-Library.Char_ord" "HOL-Library.List_Lexorder"
    "HOL-Library.Product_Lexorder"
begin

section \<open>Strings and the Python conversions used by the server\<close>

text \<open>
  A text is a list of characters, a character being a code point below 256; among them
  the decimal digits are 0 to 9 and the white space of Python is 9 to 13, 28 to 32, 133
  and 160. Texts with other code points are outside the model.
\<close>

datatype exn = InvalidOperation | ValueError | OverflowError | KeyError | IntegrityError
  | OperationalError

definition is_digit :: "char \<Rightarrow> bool" where
  "is_digit c = (c \<in> set ''0123456789'')"

definition digit_val :: "char \<Rightarrow> nat" where
  "digit_val c = of_char c - 48"

definition digits_val :: "string \<Rightarrow> nat" where
  "digits_val ds = foldl (\<lambda>n c. 10 * n + digit_val c) 0 ds"

text \<open>\<^verbatim>\<open>str.strip()\<close> removes the white space from both ends.\<close>

definition str_space :: "char \<Rightarrow> bool" where
  "str_space c = ((of_char c :: nat) \<in> {9, 10, 11, 12, 13, 28, 29, 30, 31, 32, 133, 160})"

definition strip :: "string \<Rightarrow> string" where
  "strip s = rev (dropWhile str_space (rev (dropWhile str_space s)))"

text \<open>
  \<^verbatim>\<open>int(text)\<close> skips the characters 9 to 13, 32, 133 and 160 around the literal, not
  the characters 28 to 31.
\<close>

definition int_space :: "char \<Rightarrow> bool" where
  "int_space c = ((of_char c :: nat) \<in> {9, 10, 11, 12, 13, 32, 133, 160})"

definition lower :: "char \<Rightarrow> char" where
  "lower c = (if (65::nat) \<le> of_char c \<and> (of_char c :: nat) \<le> 90
              then char_of ((of_char c :: nat) + 32) else c)"

fun split_sign :: "string \<Rightarrow> bool \<times> string" where
  "split_sign [] = (False, [])"
| "split_sign (c # cs) =
     (if c = CHR ''-'' then (True, cs)
      else if c = CHR ''+'' then (False, cs)
      else (False, c # cs))"

text \<open>
  The digits of an integer literal may be separated by single underscores:
  \<^verbatim>\<open>1_000\<close> is read, \<^verbatim>\<open>_1\<close>, \<^verbatim>\<open>1_\<close> and \<^verbatim>\<open>1__0\<close> are not.
\<close>

fun int_digits :: "string \<Rightarrow> bool" where
  "int_digits [] = False"
| "int_digits [c] = is_digit c"
| "int_digits (c # d # cs) =
     (is_digit c \<and> (if d = CHR ''_'' then int_digits cs else int_digits (d # cs)))"

text \<open>
  \<^verbatim>\<open>
  def parse_int(value: str) -> Optional[int]:
      try:
          return int(value)
      except (TypeError, ValueError):
          return None
  \<close>
  \<^verbatim>\<open>int\<close> raises \<^verbatim>\<open>ValueError\<close> for a text that is no literal, and, with the limit
  the interpreter has by default, for a literal of more than 4300 digits.
\<close>

definition parse_int :: "string \<Rightarrow> int option" where
  "parse_int v =
     (let t = rev (dropWhile int_space (rev (dropWhile int_space v)));
          (neg, ds) = split_sign t
      in if int_digits ds \<and> length (filter is_digit ds) \<le> 4300
         then (let n = int (digits_val (filter (\<lambda>c. c \<noteq> CHR ''_'') ds))
               in Some (if neg then - n else n))
         else None)"

section \<open>The decimal arithmetic behind amount parsing\<close>

text \<open>
  A \<^verbatim>\<open>Decimal\<close> is a sign, a coefficient and an exponent, an infinity, or a NaN
  (quiet, or signalling when the flag is set). The default context has 28 digits of
  precision and traps \<^verbatim>\<open>InvalidOperation\<close>.
\<close>

datatype decimal = Finite bool nat int | Infinity bool | NaN bool

definition prec :: nat where
  "prec = 28"

fun ndigits :: "nat \<Rightarrow> nat" where
  "ndigits n = (if n < 10 then 1 else Suc (ndigits (n div 10)))"

declare ndigits.simps [simp del]

definition parse_exponent :: "string \<Rightarrow> int option" where
  "parse_exponent s =
     (case split_sign s of (neg, ds) \<Rightarrow>
        if ds \<noteq> [] \<and> list_all is_digit ds
        then Some (if neg then - int (digits_val ds) else int (digits_val ds))
        else None)"

text \<open>
  The numeric alternative of the literal: digits with an optional fractional part, at
  least one digit in all, and an optional exponent. The result is the coefficient and
  the exponent of the value.
\<close>

definition parse_number :: "string \<Rightarrow> (nat \<times> int) option" where
  "parse_number body =
     (let intpart = takeWhile is_digit body;
          r1 = dropWhile is_digit body;
          (frac, r2) = (case r1 of
                          [] \<Rightarrow> ([], [])
                        | c # cs \<Rightarrow> if c = CHR ''.''
                                    then (takeWhile is_digit cs, dropWhile is_digit cs)
                                    else ([], r1))
      in if intpart = [] \<and> frac = [] then None
         else (case r2 of
                 [] \<Rightarrow> Some (digits_val (intpart @ frac), - int (length frac))
               | c # cs \<Rightarrow>
                   if lower c = CHR ''e''
                   then (case parse_exponent cs of
                           None \<Rightarrow> None
                         | Some e \<Rightarrow> Some (digits_val (intpart @ frac), e - int (length frac)))
                   else None))"

definition parse_special :: "bool \<Rightarrow> string \<Rightarrow> decimal option" where
  "parse_special neg body =
     (let b = map lower body
      in if b = ''inf'' \<or> b = ''infinity'' then Some (Infinity neg)
         else if take 3 b = ''nan'' \<and> list_all is_digit (drop 3 b) then Some (NaN False)
         else if take 4 b = ''snan'' \<and> list_all is_digit (drop 4 b) then Some (NaN True)
         else None)"

text \<open>
  \<^verbatim>\<open>Decimal(text)\<close>: white space around the literal and every underscore are dropped;
  a text that is no literal raises \<^verbatim>\<open>InvalidOperation\<close>. The conversion is exact, and
  it raises \<^verbatim>\<open>InvalidOperation\<close> as well for a number that the largest context of the
  interpreter cannot hold exactly: the exponent of the value must be at least
  \<open>literal_etiny\<close>, and the exponent of its leading digit at most \<open>literal_emax\<close>
  (the bounds of a 64-bit interpreter).
\<close>

definition literal_emax :: int where
  "literal_emax = 999999999999999999"

definition literal_etiny :: int where
  "literal_etiny = - 1999999999999999997"

definition Decimal :: "string \<Rightarrow> exn + decimal" where
  "Decimal v =
     (let (neg, body) = split_sign (filter (\<lambda>c. c \<noteq> CHR ''_'') (strip v))
      in case parse_number body of
           Some (c, e) \<Rightarrow>
             if literal_etiny \<le> e \<and> e + int (ndigits c) - 1 \<le> literal_emax
             then Inr (Finite neg c e) else Inl InvalidOperation
         | None \<Rightarrow> (case parse_special neg body of
                       Some d \<Rightarrow> Inr d
                     | None \<Rightarrow> Inl InvalidOperation))"

text \<open>
  \<^verbatim>\<open>d.quantize(Decimal("0.01"), rounding=ROUND_HALF_UP)\<close>, with the exponent of the
  second argument as \<open>target\<close>. A quiet NaN is returned as it is; a signalling NaN and
  an infinity raise; a result of more than 28 digits raises. Half-up rounds a tie away
  from zero: the coefficient is rounded, the sign is kept.
\<close>

definition rescale_half_up :: "nat \<Rightarrow> int \<Rightarrow> int \<Rightarrow> nat" where
  "rescale_half_up c e target =
     (if target \<le> e then c * 10 ^ nat (e - target)
      else (let k = nat (target - e) in (c + 5 * 10 ^ (k - 1)) div 10 ^ k))"

definition quantize :: "decimal \<Rightarrow> int \<Rightarrow> exn + decimal" where
  "quantize d target =
     (case d of
        NaN signalling \<Rightarrow> if signalling then Inl InvalidOperation else Inr (NaN False)
      | Infinity neg \<Rightarrow> Inl InvalidOperation
      | Finite neg c e \<Rightarrow>
          if c = 0 then Inr (Finite neg 0 target)
          else if int prec < (e + int (ndigits c) - 1) - target + 1 then Inl InvalidOperation
          else (let c' = rescale_half_up c e target
                in if prec < ndigits c' then Inl InvalidOperation
                   else Inr (Finite neg c' target)))"

text \<open>
  \<^verbatim>\<open>d * 100\<close>: the coefficients are multiplied, the exponents added, and the product is
  rounded to the precision of the context, half-even. (The exponent range of the context
  is not modelled: after \<open>quantize\<close> the exponent is \<open>-2\<close>.)
\<close>

definition round_half_even :: "nat \<Rightarrow> nat \<Rightarrow> nat" where
  "round_half_even c k =
     (let q = c div 10 ^ k; r = c mod 10 ^ k
      in if 10 ^ k < 2 * r \<or> (2 * r = 10 ^ k \<and> odd q) then q + 1 else q)"

definition fix_prec :: "bool \<Rightarrow> nat \<Rightarrow> int \<Rightarrow> decimal" where
  "fix_prec neg c e =
     (if prec < ndigits c
      then (let k = ndigits c - prec; c' = round_half_even c k
            in if prec < ndigits c' then Finite neg (c' div 10) (e + int k + 1)
               else Finite neg c' (e + int k))
      else Finite neg c e)"

definition mul_nat :: "decimal \<Rightarrow> nat \<Rightarrow> exn + decimal" where
  "mul_nat d m =
     (case d of
        NaN signalling \<Rightarrow> if signalling then Inl InvalidOperation else Inr (NaN False)
      | Infinity neg \<Rightarrow> if m = 0 then Inl InvalidOperation else Inr (Infinity neg)
      | Finite neg c e \<Rightarrow> Inr (fix_prec neg (c * m) e))"

text \<open>\<^verbatim>\<open>int(d)\<close> truncates towards zero; a NaN raises ValueError, an infinity OverflowError.\<close>

definition int_of_decimal :: "decimal \<Rightarrow> exn + int" where
  "int_of_decimal d =
     (case d of
        NaN signalling \<Rightarrow> Inl ValueError
      | Infinity neg \<Rightarrow> Inl OverflowError
      | Finite neg c e \<Rightarrow>
          (let m = (if 0 \<le> e then c * 10 ^ nat e else c div 10 ^ nat (- e))
           in Inr (if neg then - int m else int m)))"

section \<open>Amount parsing\<close>

text \<open>
  \<^verbatim>\<open>
  def parse_amount(value: str) -> Optional[int]:
      value = (value or "").strip().replace(" ", "")
      if not value:
          return None
      value = value.replace(",", ".")
      try:
          dec_value = Decimal(value)
      except InvalidOperation:
          return None
      dec_value = dec_value.quantize(Decimal("0.01"), rounding=ROUND_HALF_UP)
      cents = int(dec_value * 100)
      return cents
  \<close>
  Only the conversion of the text is inside the \<^verbatim>\<open>try\<close>; an exception of \<open>quantize\<close>,
  of the product or of \<open>int\<close> leaves the function (\<open>Inl\<close>).
\<close>

definition amount_text :: "string \<Rightarrow> string" where
  "amount_text v = filter (\<lambda>c. c \<noteq> CHR '' '') (strip v)"

definition comma_to_dot :: "string \<Rightarrow> string" where
  "comma_to_dot v = map (\<lambda>c. if c = CHR '','' then CHR ''.'' else c) v"

definition parse_amount :: "string \<Rightarrow> exn + int option" where
  "parse_amount v =
     (let v1 = amount_text v
      in if v1 = [] then Inr None
         else (case Decimal (comma_to_dot v1) of
                 Inl _ \<Rightarrow> Inr None
               | Inr d \<Rightarrow>
                   (case quantize d (- 2) of
                      Inl x \<Rightarrow> Inl x
                    | Inr q \<Rightarrow>
                        (case mul_nat q 100 of
                           Inl x \<Rightarrow> Inl x
                         | Inr p \<Rightarrow>
                             (case int_of_decimal p of
                                Inl x \<Rightarrow> Inl x
                              | Inr n \<Rightarrow> Inr (Some n))))))"

text \<open>
  The value of a finite decimal, and the rounding the specification names: half-up to
  two decimal places, times 100. Half-up is the rounding of the decimal module of that
  name: to the nearest hundredth, a tie going away from zero.
\<close>

definition decimal_value :: "bool \<Rightarrow> nat \<Rightarrow> int \<Rightarrow> rat" where
  "decimal_value neg c e =
     (if neg then - 1 else 1) * of_nat c * (if 0 \<le> e then 10 ^ nat e else 1 / 10 ^ nat (- e))"

definition half_up_cents :: "rat \<Rightarrow> int" where
  "half_up_cents x = (if x < 0 then - \<lfloor>- x * 100 + 1 / 2\<rfloor> else \<lfloor>x * 100 + 1 / 2\<rfloor>)"

section \<open>The database\<close>

text \<open>
  The five tables of \<^verbatim>\<open>SCHEMA\<close>, each a list of rows in insertion order. The column
  \<open>id\<close> of every table is its primary key; a lookup by id takes the first row that has
  it. \<open>cf_recorded_on\<close> holds the text that was stored, ordered as text (the
  engine keeps a text that is no numeric literal, such as an ISO date, as text).
  \<open>cashflows_seq\<close> is the largest id the table \<open>cashflows\<close> has ever used
  (\<^verbatim>\<open>AUTOINCREMENT\<close>).
\<close>

record reference_row =
  ref_id :: int
  ref_name :: string

record category_row =
  cat_id :: int
  cat_type_id :: int
  cat_name :: string

record subcategory_row =
  sub_id :: int
  sub_category_id :: int
  sub_name :: string

record cashflow_row =
  cf_id :: int
  cf_recorded_on :: string
  cf_status_id :: int
  cf_type_id :: int
  cf_category_id :: int
  cf_subcategory_id :: int
  cf_amount_cents :: int
  cf_comment :: "string option"

record database =
  statuses :: "reference_row list"
  types :: "reference_row list"
  categories :: "category_row list"
  subcategories :: "subcategory_row list"
  cashflows :: "cashflow_row list"
  cashflows_seq :: int

text \<open>The columns of each table, as \<^verbatim>\<open>SCHEMA\<close> declares them.\<close>

definition table_columns :: "string \<Rightarrow> string list" where
  "table_columns t =
     (if t = ''statuses'' then [''id'', ''name'']
      else if t = ''types'' then [''id'', ''name'']
      else if t = ''categories'' then [''id'', ''type_id'', ''name'']
      else if t = ''subcategories'' then [''id'', ''category_id'', ''name'']
      else if t = ''cashflows'' then
        [''id'', ''recorded_on'', ''status_id'', ''type_id'', ''category_id'',
         ''subcategory_id'', ''amount_cents'', ''comment'']
      else [])"

text \<open>
  A column written without its table in a query over several tables belongs to the one
  table that has a column of that name; the engine refuses the query
  (\<^verbatim>\<open>OperationalError\<close>) when no table or more than one table has it.
\<close>

definition resolve :: "string list \<Rightarrow> string \<Rightarrow> exn + string" where
  "resolve tables column =
     (case filter (\<lambda>t. column \<in> set (table_columns t)) tables of
        [] \<Rightarrow> Inl OperationalError
      | [t] \<Rightarrow> Inr t
      | t # u # ts \<Rightarrow> Inl OperationalError)"

definition bind :: "exn + 'a \<Rightarrow> ('a \<Rightarrow> exn + 'b) \<Rightarrow> exn + 'b" where
  "bind m f = (case m of Inl x \<Rightarrow> Inl x | Inr a \<Rightarrow> f a)"

text \<open>
  The engine holds the integers of 64 bits. An integer of Python outside this range
  cannot be bound as a parameter of a statement: the statement raises
  \<^verbatim>\<open>OverflowError\<close> and does nothing. \<open>fetchone\<close> is the lookup of one row by a
  bound value, \<open>row\<close> being what the query selects. The range is modelled for the
  values that come from a form and from the path of an entry (the lookups of the
  validation and of the views of the entries, and the statements that write an entry);
  the handler of the reference data is modelled for an id within the range.
\<close>

definition bindable :: "int \<Rightarrow> bool" where
  "bindable i = (- (2 ^ 63) \<le> i \<and> i < 2 ^ 63)"

definition fetchone :: "int \<Rightarrow> 'a option \<Rightarrow> exn + 'a option" where
  "fetchone parameter row = (if bindable parameter then Inr row else Inl OverflowError)"

section \<open>The repository\<close>

text \<open>
  \<open>get_status\<close>, \<open>get_type\<close>, \<open>get_category\<close>, \<open>get_subcategory\<close> and
  \<open>get_cashflow\<close> give the row that the query of the function of that name selects;
  the callers bind the id with \<open>fetchone\<close>.
\<close>

definition get_status :: "database \<Rightarrow> int \<Rightarrow> reference_row option" where
  "get_status db i = find (\<lambda>r. ref_id r = i) (statuses db)"

definition get_type :: "database \<Rightarrow> int \<Rightarrow> reference_row option" where
  "get_type db i = find (\<lambda>r. ref_id r = i) (types db)"

definition get_category :: "database \<Rightarrow> int \<Rightarrow> category_row option" where
  "get_category db i = find (\<lambda>r. cat_id r = i) (categories db)"

text \<open>
  \<^verbatim>\<open>get_subcategory\<close> joins the subcategory with its category and returns the type of
  that category as \<open>type_id\<close>.
\<close>

record subcategory_join =
  sj_id :: int
  sj_name :: string
  sj_category_id :: int
  sj_type_id :: int

definition get_subcategory :: "database \<Rightarrow> int \<Rightarrow> subcategory_join option" where
  "get_subcategory db i =
     (case find (\<lambda>s. sub_id s = i) (subcategories db) of
        None \<Rightarrow> None
      | Some s \<Rightarrow>
          (case find (\<lambda>c. cat_id c = sub_category_id s) (categories db) of
             None \<Rightarrow> None
           | Some c \<Rightarrow>
               Some \<lparr>sj_id = sub_id s, sj_name = sub_name s,
                     sj_category_id = sub_category_id s, sj_type_id = cat_type_id c\<rparr>))"

definition get_cashflow :: "database \<Rightarrow> int \<Rightarrow> cashflow_row option" where
  "get_cashflow db i = find (\<lambda>r. cf_id r = i) (cashflows db)"

text \<open>
  \<^verbatim>\<open>
  def count_dependencies(table: str, column: str, value: int) -> int:
      query = f"SELECT COUNT(*) AS cnt FROM {table} WHERE {column} = ?"
      row = db.fetchone(query, (value,))
      return int(row["cnt"]) if row else 0
  \<close>
  \<open>column_values\<close> gives the integer columns of the tables; the server names no other
  column here, and a name that is no column is an error of the engine.
\<close>

definition column_values :: "database \<Rightarrow> string \<Rightarrow> string \<Rightarrow> int list option" where
  "column_values db t c =
     (if t = ''cashflows'' then
        (if c = ''id'' then Some (map cf_id (cashflows db))
         else if c = ''status_id'' then Some (map cf_status_id (cashflows db))
         else if c = ''type_id'' then Some (map cf_type_id (cashflows db))
         else if c = ''category_id'' then Some (map cf_category_id (cashflows db))
         else if c = ''subcategory_id'' then Some (map cf_subcategory_id (cashflows db))
         else if c = ''amount_cents'' then Some (map cf_amount_cents (cashflows db))
         else None)
      else if t = ''categories'' then
        (if c = ''id'' then Some (map cat_id (categories db))
         else if c = ''type_id'' then Some (map cat_type_id (categories db))
         else None)
      else if t = ''subcategories'' then
        (if c = ''id'' then Some (map sub_id (subcategories db))
         else if c = ''category_id'' then Some (map sub_category_id (subcategories db))
         else None)
      else if t = ''statuses'' then
        (if c = ''id'' then Some (map ref_id (statuses db)) else None)
      else if t = ''types'' then
        (if c = ''id'' then Some (map ref_id (types db)) else None)
      else None)"

definition count_dependencies :: "database \<Rightarrow> string \<Rightarrow> string \<Rightarrow> int \<Rightarrow> exn + nat" where
  "count_dependencies db t c v =
     (case column_values db t c of
        None \<Rightarrow> Inl OperationalError
      | Some vs \<Rightarrow> Inr (length (filter (\<lambda>x. x = v) vs)))"

subsection \<open>Deleting reference rows\<close>

text \<open>
  Every connection turns the foreign keys on. A \<^verbatim>\<open>DELETE\<close> that removes a row takes
  with it the rows that reference it \<^verbatim>\<open>ON DELETE CASCADE\<close> (categories of a type,
  subcategories of a category) and fails with \<^verbatim>\<open>IntegrityError\<close>, changing nothing,
  when a cash-flow entry references a removed row: the references of \<open>cashflows\<close>
  do not cascade.
\<close>

definition delete_status :: "database \<Rightarrow> int \<Rightarrow> exn + database" where
  "delete_status db i =
     (if list_ex (\<lambda>r. ref_id r = i) (statuses db) \<and>
         list_ex (\<lambda>e. cf_status_id e = i) (cashflows db)
      then Inl IntegrityError
      else Inr (db\<lparr>statuses := filter (\<lambda>r. ref_id r \<noteq> i) (statuses db)\<rparr>))"

definition delete_subcategory :: "database \<Rightarrow> int \<Rightarrow> exn + database" where
  "delete_subcategory db i =
     (if list_ex (\<lambda>r. sub_id r = i) (subcategories db) \<and>
         list_ex (\<lambda>e. cf_subcategory_id e = i) (cashflows db)
      then Inl IntegrityError
      else Inr (db\<lparr>subcategories := filter (\<lambda>r. sub_id r \<noteq> i) (subcategories db)\<rparr>))"

definition delete_category :: "database \<Rightarrow> int \<Rightarrow> exn + database" where
  "delete_category db i =
     (if \<not> list_ex (\<lambda>r. cat_id r = i) (categories db) then Inr db
      else (let subs = map sub_id (filter (\<lambda>s. sub_category_id s = i) (subcategories db))
            in if list_ex (\<lambda>e. cf_category_id e = i \<or> cf_subcategory_id e \<in> set subs)
                    (cashflows db)
               then Inl IntegrityError
               else Inr (db\<lparr>categories := filter (\<lambda>r. cat_id r \<noteq> i) (categories db),
                             subcategories :=
                               filter (\<lambda>s. sub_category_id s \<noteq> i) (subcategories db)\<rparr>)))"

definition delete_type :: "database \<Rightarrow> int \<Rightarrow> exn + database" where
  "delete_type db i =
     (if \<not> list_ex (\<lambda>r. ref_id r = i) (types db) then Inr db
      else (let cats = map cat_id (filter (\<lambda>c. cat_type_id c = i) (categories db));
                subs = map sub_id
                         (filter (\<lambda>s. sub_category_id s \<in> set cats) (subcategories db))
            in if list_ex (\<lambda>e. cf_type_id e = i \<or> cf_category_id e \<in> set cats \<or>
                                 cf_subcategory_id e \<in> set subs) (cashflows db)
               then Inl IntegrityError
               else Inr (db\<lparr>types := filter (\<lambda>r. ref_id r \<noteq> i) (types db),
                             categories := filter (\<lambda>c. cat_type_id c \<noteq> i) (categories db),
                             subcategories :=
                               filter (\<lambda>s. sub_category_id s \<notin> set cats)
                                 (subcategories db)\<rparr>)))"

subsection \<open>Writing cash-flow entries\<close>

text \<open>
  The payload of an entry is the dictionary \<open>data\<close> that validation fills: a key that
  was not set is \<open>None\<close> here, and reading it with \<^verbatim>\<open>payload[key]\<close> raises
  \<^verbatim>\<open>KeyError\<close>; the comment is read with \<^verbatim>\<open>payload.get\<close>. The values are then
  bound as the parameters of the statement, which raises \<^verbatim>\<open>OverflowError\<close> for an
  integer outside the range of the engine; the foreign keys are checked last.
\<close>

record entry_data =
  recorded_on :: "string option"
  status_id :: "int option"
  type_id :: "int option"
  category_id :: "int option"
  subcategory_id :: "int option"
  amount_cents :: "int option"
  amount :: "string option"
  comment :: "string option"

definition payload_row :: "int \<Rightarrow> entry_data \<Rightarrow> cashflow_row option" where
  "payload_row i p =
     (case recorded_on p of None \<Rightarrow> None | Some d \<Rightarrow>
     (case status_id p of None \<Rightarrow> None | Some s \<Rightarrow>
     (case type_id p of None \<Rightarrow> None | Some t \<Rightarrow>
     (case category_id p of None \<Rightarrow> None | Some c \<Rightarrow>
     (case subcategory_id p of None \<Rightarrow> None | Some u \<Rightarrow>
     (case amount_cents p of None \<Rightarrow> None | Some a \<Rightarrow>
        Some \<lparr>cf_id = i, cf_recorded_on = d, cf_status_id = s, cf_type_id = t,
              cf_category_id = c, cf_subcategory_id = u, cf_amount_cents = a,
              cf_comment = comment p\<rparr>))))))"

definition references_exist :: "database \<Rightarrow> cashflow_row \<Rightarrow> bool" where
  "references_exist db r =
     (list_ex (\<lambda>x. ref_id x = cf_status_id r) (statuses db) \<and>
      list_ex (\<lambda>x. ref_id x = cf_type_id r) (types db) \<and>
      list_ex (\<lambda>x. cat_id x = cf_category_id r) (categories db) \<and>
      list_ex (\<lambda>x. sub_id x = cf_subcategory_id r) (subcategories db))"

definition fresh_id :: "database \<Rightarrow> int" where
  "fresh_id db = max (cashflows_seq db) (fold max (map cf_id (cashflows db)) 0) + 1"

definition row_bindable :: "cashflow_row \<Rightarrow> bool" where
  "row_bindable r =
     (bindable (cf_status_id r) \<and> bindable (cf_type_id r) \<and> bindable (cf_category_id r) \<and>
      bindable (cf_subcategory_id r) \<and> bindable (cf_amount_cents r))"

definition create_cashflow :: "database \<Rightarrow> entry_data \<Rightarrow> exn + (int \<times> database)" where
  "create_cashflow db payload =
     (case payload_row (fresh_id db) payload of
        None \<Rightarrow> Inl KeyError
      | Some row \<Rightarrow>
          if \<not> row_bindable row then Inl OverflowError
          else if references_exist db row
          then Inr (cf_id row,
                    db\<lparr>cashflows := cashflows db @ [row], cashflows_seq := cf_id row\<rparr>)
          else Inl IntegrityError)"

definition update_cashflow :: "database \<Rightarrow> int \<Rightarrow> entry_data \<Rightarrow> exn + database" where
  "update_cashflow db entry_id payload =
     (case payload_row entry_id payload of
        None \<Rightarrow> Inl KeyError
      | Some row \<Rightarrow>
          if \<not> (row_bindable row \<and> bindable entry_id) then Inl OverflowError
          else if list_ex (\<lambda>r. cf_id r = entry_id) (cashflows db) \<and>
                  \<not> references_exist db row
          then Inl IntegrityError
          else Inr (db\<lparr>cashflows :=
                          map (\<lambda>r. if cf_id r = entry_id then row else r) (cashflows db)\<rparr>))"

definition delete_cashflow :: "database \<Rightarrow> int \<Rightarrow> database" where
  "delete_cashflow db entry_id =
     db\<lparr>cashflows := filter (\<lambda>r. cf_id r \<noteq> entry_id) (cashflows db)\<rparr>"

subsection \<open>Listing cash-flow entries\<close>

text \<open>
  A filter map has text values, as the query string gives them. A filter is supplied
  when its key is present with a non-empty text (\<^verbatim>\<open>if filters.get(key)\<close>). Each
  supplied filter adds one condition, kept here with the column it names (written
  without a table in the source) and its meaning on the entry. A text parameter compared
  with an integer column is read as a number by the engine; \<open>coerce\<close> is that reading.
\<close>

type_synonym form = "string \<rightharpoonup> string"

definition form_get :: "form \<Rightarrow> string \<Rightarrow> string" where
  "form_get form key = (case form key of None \<Rightarrow> [] | Some v \<Rightarrow> v)"

definition supplied :: "form \<Rightarrow> string \<Rightarrow> bool" where
  "supplied filters key = (form_get filters key \<noteq> [])"

definition conditions ::
  "(string \<Rightarrow> int option) \<Rightarrow> form \<Rightarrow> (string \<times> (cashflow_row \<Rightarrow> bool)) list" where
  "conditions coerce filters =
     (if supplied filters ''date_from''
      then [(''recorded_on'', \<lambda>r. form_get filters ''date_from'' \<le> cf_recorded_on r)]
      else []) @
     (if supplied filters ''date_to''
      then [(''recorded_on'', \<lambda>r. cf_recorded_on r \<le> form_get filters ''date_to'')]
      else []) @
     (if supplied filters ''status_id''
      then [(''status_id'', \<lambda>r. coerce (form_get filters ''status_id'') = Some (cf_status_id r))]
      else []) @
     (if supplied filters ''type_id''
      then [(''type_id'', \<lambda>r. coerce (form_get filters ''type_id'') = Some (cf_type_id r))]
      else []) @
     (if supplied filters ''category_id''
      then [(''category_id'',
             \<lambda>r. coerce (form_get filters ''category_id'') = Some (cf_category_id r))]
      else []) @
     (if supplied filters ''subcategory_id''
      then [(''subcategory_id'',
             \<lambda>r. coerce (form_get filters ''subcategory_id'') = Some (cf_subcategory_id r))]
      else [])"

text \<open>
  A row of the listing: the entry, and the names of the four rows it is joined with.
  An entry with a reference to a missing row has no row in the join.
\<close>

record cashflow_listing =
  entry :: cashflow_row
  status_name :: string
  type_name :: string
  category_name :: string
  subcategory_name :: string

definition join_row :: "database \<Rightarrow> cashflow_row \<Rightarrow> cashflow_listing option" where
  "join_row db r =
     (case find (\<lambda>x. ref_id x = cf_status_id r) (statuses db) of None \<Rightarrow> None | Some s \<Rightarrow>
     (case find (\<lambda>x. ref_id x = cf_type_id r) (types db) of None \<Rightarrow> None | Some t \<Rightarrow>
     (case find (\<lambda>x. cat_id x = cf_category_id r) (categories db) of None \<Rightarrow> None | Some c \<Rightarrow>
     (case find (\<lambda>x. sub_id x = cf_subcategory_id r) (subcategories db) of None \<Rightarrow> None
      | Some u \<Rightarrow>
        Some \<lparr>entry = r, status_name = ref_name s, type_name = ref_name t,
              category_name = cat_name c, subcategory_name = sub_name u\<rparr>))))"

definition joined_tables :: "string list" where
  "joined_tables = [''cashflows'', ''statuses'', ''types'', ''categories'', ''subcategories'']"

fun resolve_all :: "string list \<Rightarrow> exn + unit" where
  "resolve_all [] = Inr ()"
| "resolve_all (c # cs) =
     (case resolve joined_tables c of Inl x \<Rightarrow> Inl x | Inr t \<Rightarrow> resolve_all cs)"

text \<open>
  \<^verbatim>\<open>list_cashflows\<close>: the conditions are joined with \<^verbatim>\<open>AND\<close> (no condition, no
  \<^verbatim>\<open>WHERE\<close>), the rows are ordered by \<^verbatim>\<open>recorded_on DESC, cashflows.id DESC\<close>.
\<close>

definition list_cashflows ::
  "(string \<Rightarrow> int option) \<Rightarrow> database \<Rightarrow> form \<Rightarrow> exn + cashflow_listing list" where
  "list_cashflows coerce db filters =
     (let conds = conditions coerce filters
      in case resolve_all (map fst conds) of
           Inl x \<Rightarrow> Inl x
         | Inr _ \<Rightarrow>
             Inr (rev (sort_key (\<lambda>l. (cf_recorded_on (entry l), cf_id (entry l)))
                    (filter (\<lambda>l. list_all (\<lambda>c. snd c (entry l)) conds)
                       (List.map_filter (join_row db) (cashflows db))))))"

section \<open>The server\<close>

subsection \<open>Validation of the entry form\<close>

text \<open>
  The messages of \<^verbatim>\<open>validate_entry_form\<close>, in the order of the source (the texts are
  Russian): the date of the operation is required; the status is required; a status
  that does not exist was chosen; the type is required; a type that does not exist was
  chosen; the category is required; a category that does not exist was chosen; the
  category is not linked to the chosen type; the subcategory is required; a subcategory
  that does not exist was chosen; the subcategory does not belong to the chosen
  category; the subcategory does not belong to the chosen type; enter a correct amount.
\<close>

datatype message =
    DateRequired
  | StatusRequired | StatusUnknown
  | TypeRequired | TypeUnknown
  | CategoryRequired | CategoryUnknown | CategoryNotOfType
  | SubcategoryRequired | SubcategoryUnknown | SubcategoryNotOfCategory | SubcategoryNotOfType
  | AmountInvalid

type_synonym validation = "entry_data \<times> message list"

definition no_data :: entry_data where
  "no_data = \<lparr>recorded_on = None, status_id = None, type_id = None, category_id = None,
              subcategory_id = None, amount_cents = None, amount = None, comment = None\<rparr>"

text \<open>\<^verbatim>\<open>if x\<close> for an optional integer: neither \<^verbatim>\<open>None\<close> nor zero.\<close>

definition truthy :: "int option \<Rightarrow> bool" where
  "truthy x = (case x of None \<Rightarrow> False | Some i \<Rightarrow> i \<noteq> 0)"

text \<open>
  The function is a sequence of blocks, one for each field, that extend \<open>data\<close> and
  \<open>errors\<close>; each block is a step here, in the order of the source. A step returns
  the extended pair or raises; the block of the date never raises.
  \<^verbatim>\<open>
      recorded_on = form.get("recorded_on", "").strip()
      if not recorded_on:
          errors.append(DATE REQUIRED)
      else:
          data["recorded_on"] = recorded_on
  \<close>
\<close>

definition check_recorded_on :: "form \<Rightarrow> validation \<Rightarrow> exn + validation" where
  "check_recorded_on form st =
     (case st of (data, errors) \<Rightarrow>
        (let recorded = strip (form_get form ''recorded_on'')
         in if recorded = [] then Inr (data, errors @ [DateRequired])
            else Inr (data\<lparr>recorded_on := Some recorded\<rparr>, errors)))"

text \<open>
  \<^verbatim>\<open>
      status_id = parse_int(form.get("status_id", ""))
      if not status_id:
          errors.append(STATUS REQUIRED)
      elif not repo.get_status(status_id):
          errors.append(STATUS UNKNOWN)
      else:
          data["status_id"] = status_id
  \<close>
  and the same for the type. The lookup binds the id: an id outside the range of the
  engine raises \<^verbatim>\<open>OverflowError\<close>, which is not caught.
\<close>

definition check_status :: "database \<Rightarrow> form \<Rightarrow> validation \<Rightarrow> exn + validation" where
  "check_status db form st =
     (case st of (data, errors) \<Rightarrow>
        (case parse_int (form_get form ''status_id'') of
           None \<Rightarrow> Inr (data, errors @ [StatusRequired])
         | Some i \<Rightarrow>
             if i = 0 then Inr (data, errors @ [StatusRequired])
             else (case fetchone i (get_status db i) of
                     Inl x \<Rightarrow> Inl x
                   | Inr None \<Rightarrow> Inr (data, errors @ [StatusUnknown])
                   | Inr (Some status) \<Rightarrow> Inr (data\<lparr>status_id := Some i\<rparr>, errors))))"

definition check_type :: "database \<Rightarrow> form \<Rightarrow> validation \<Rightarrow> exn + validation" where
  "check_type db form st =
     (case st of (data, errors) \<Rightarrow>
        (case parse_int (form_get form ''type_id'') of
           None \<Rightarrow> Inr (data, errors @ [TypeRequired])
         | Some i \<Rightarrow>
             if i = 0 then Inr (data, errors @ [TypeRequired])
             else (case fetchone i (get_type db i) of
                     Inl x \<Rightarrow> Inl x
                   | Inr None \<Rightarrow> Inr (data, errors @ [TypeUnknown])
                   | Inr (Some t) \<Rightarrow> Inr (data\<lparr>type_id := Some i\<rparr>, errors))))"

text \<open>
  \<^verbatim>\<open>
      category_id = parse_int(form.get("category_id", ""))
      if not category_id:
          errors.append(CATEGORY REQUIRED)
      else:
          category = repo.get_category(category_id)
          if not category:
              errors.append(CATEGORY UNKNOWN)
          else:
              data["category_id"] = category_id
              if type_id and category["type_id"] != type_id:
                  errors.append(CATEGORY NOT OF TYPE)
  \<close>
  \<open>type_id\<close> is the parsed field of the form, whether or not that type exists.
\<close>

definition check_category :: "database \<Rightarrow> form \<Rightarrow> validation \<Rightarrow> exn + validation" where
  "check_category db form st =
     (case st of (data, errors) \<Rightarrow>
        (let tid = parse_int (form_get form ''type_id'')
         in case parse_int (form_get form ''category_id'') of
              None \<Rightarrow> Inr (data, errors @ [CategoryRequired])
            | Some c \<Rightarrow>
                if c = 0 then Inr (data, errors @ [CategoryRequired])
                else (case fetchone c (get_category db c) of
                        Inl x \<Rightarrow> Inl x
                      | Inr None \<Rightarrow> Inr (data, errors @ [CategoryUnknown])
                      | Inr (Some category) \<Rightarrow>
                          Inr (data\<lparr>category_id := Some c\<rparr>,
                               if truthy tid \<and> Some (cat_type_id category) \<noteq> tid
                               then errors @ [CategoryNotOfType] else errors))))"

text \<open>
  \<^verbatim>\<open>
      subcategory_id = parse_int(form.get("subcategory_id", ""))
      if not subcategory_id:
          errors.append(SUBCATEGORY REQUIRED)
      else:
          subcategory = repo.get_subcategory(subcategory_id)
          if not subcategory:
              errors.append(SUBCATEGORY UNKNOWN)
          else:
              data["subcategory_id"] = subcategory_id
              if category_id and subcategory["category_id"] != category_id:
                  errors.append(SUBCATEGORY NOT OF CATEGORY)
              if type_id and subcategory["type_id"] != type_id:
                  errors.append(SUBCATEGORY NOT OF TYPE)
  \<close>
\<close>

definition check_subcategory :: "database \<Rightarrow> form \<Rightarrow> validation \<Rightarrow> exn + validation" where
  "check_subcategory db form st =
     (case st of (data, errors) \<Rightarrow>
        (let tid = parse_int (form_get form ''type_id'');
             cid = parse_int (form_get form ''category_id'')
         in case parse_int (form_get form ''subcategory_id'') of
              None \<Rightarrow> Inr (data, errors @ [SubcategoryRequired])
            | Some u \<Rightarrow>
                if u = 0 then Inr (data, errors @ [SubcategoryRequired])
                else (case fetchone u (get_subcategory db u) of
                        Inl x \<Rightarrow> Inl x
                      | Inr None \<Rightarrow> Inr (data, errors @ [SubcategoryUnknown])
                      | Inr (Some subcategory) \<Rightarrow>
                          Inr (data\<lparr>subcategory_id := Some u\<rparr>,
                               errors @
                               (if truthy cid \<and> Some (sj_category_id subcategory) \<noteq> cid
                                then [SubcategoryNotOfCategory] else []) @
                               (if truthy tid \<and> Some (sj_type_id subcategory) \<noteq> tid
                                then [SubcategoryNotOfType] else [])))))"

text \<open>
  \<^verbatim>\<open>
      amount_raw = form.get("amount", "")
      cents = parse_amount(amount_raw)
      if cents is None or cents == 0:
          errors.append(AMOUNT INVALID)
      else:
          data["amount_cents"] = cents
          data["amount"] = amount_raw
  \<close>
  An exception of \<open>parse_amount\<close> is not caught here: it ends the validation.
\<close>

definition check_amount :: "form \<Rightarrow> validation \<Rightarrow> exn + validation" where
  "check_amount form st =
     (case st of (data, errors) \<Rightarrow>
        (case parse_amount (form_get form ''amount'') of
           Inl x \<Rightarrow> Inl x
         | Inr None \<Rightarrow> Inr (data, errors @ [AmountInvalid])
         | Inr (Some cents) \<Rightarrow>
             if cents = 0 then Inr (data, errors @ [AmountInvalid])
             else Inr (data\<lparr>amount_cents := Some cents,
                             amount := Some (form_get form ''amount'')\<rparr>, errors)))"

text \<open>
  \<^verbatim>\<open>
      data["comment"] = form.get("comment", "").strip()
      return data, errors
  \<close>
\<close>

definition validate_entry_form :: "database \<Rightarrow> form \<Rightarrow> exn + validation" where
  "validate_entry_form db form =
     bind (check_recorded_on form (no_data, []))
       (\<lambda>st. bind (check_status db form st)
       (\<lambda>st. bind (check_type db form st)
       (\<lambda>st. bind (check_category db form st)
       (\<lambda>st. bind (check_subcategory db form st)
       (\<lambda>st. bind (check_amount form st)
       (\<lambda>st. case st of (data, errors) \<Rightarrow>
          Inr (data\<lparr>comment := Some (strip (form_get form ''comment''))\<rparr>, errors)))))))"

subsection \<open>The views of the entries\<close>

text \<open>
  A response is what the caller can tell apart: the form again with the messages of the
  validation (400), a redirection to the list with a notice (302), the page that is
  not found (404), the page of the reference data with its notices (200), and the page
  of an internal error (500), which \<open>application\<close> gives for an exception of a view.
\<close>

datatype flash = EntryCreated | EntryUpdated | EntryDeleted

datatype level = Error | Success

text \<open>
  The notices of \<^verbatim>\<open>handle_reference_delete\<close>: the status cannot be deleted while
  entries linked with it exist; a type with categories or entries cannot be deleted;
  the category cannot be deleted while subcategories or entries linked with it exist;
  the subcategory cannot be deleted while entries linked with it exist; the element is
  deleted.
\<close>

datatype notice =
    StatusHasEntries | TypeHasDependents | CategoryHasDependents | SubcategoryHasEntries
  | ElementDeleted

datatype response =
    BadRequest "message list"
  | Redirect flash
  | NotFound
  | ReferencePage "(level \<times> notice) list"
  | InternalServerError

definition view_create_entry :: "database \<Rightarrow> form \<Rightarrow> exn + (response \<times> database)" where
  "view_create_entry db form =
     bind (validate_entry_form db form)
       (\<lambda>v. case v of (data, errors) \<Rightarrow>
          if errors \<noteq> [] then Inr (BadRequest errors, db)
          else bind (create_cashflow db data)
                 (\<lambda>c. case c of (i, db') \<Rightarrow> Inr (Redirect EntryCreated, db')))"

definition view_update_entry ::
  "database \<Rightarrow> int \<Rightarrow> form \<Rightarrow> exn + (response \<times> database)" where
  "view_update_entry db entry_id form =
     bind (fetchone entry_id (get_cashflow db entry_id))
       (\<lambda>found.
          if found = None then Inr (NotFound, db)
          else bind (validate_entry_form db form)
                 (\<lambda>v. case v of (data, errors) \<Rightarrow>
                    if errors \<noteq> [] then Inr (BadRequest errors, db)
                    else bind (update_cashflow db entry_id data)
                           (\<lambda>db'. Inr (Redirect EntryUpdated, db'))))"

definition view_delete_entry :: "database \<Rightarrow> int \<Rightarrow> exn + (response \<times> database)" where
  "view_delete_entry db entry_id =
     bind (fetchone entry_id (get_cashflow db entry_id))
       (\<lambda>found.
          if found = None then Inr (NotFound, db)
          else Inr (Redirect EntryDeleted, delete_cashflow db entry_id))"

text \<open>
  \<^verbatim>\<open>application\<close> runs the view inside \<^verbatim>\<open>try\<close>: a \<^verbatim>\<open>KeyError\<close> gives the page that
  is not found, any other exception the page of an internal error; the statement that
  raised has written nothing.
\<close>

definition application ::
  "database \<Rightarrow> exn + (response \<times> database) \<Rightarrow> response \<times> database" where
  "application db outcome =
     (case outcome of
        Inl x \<Rightarrow> (if x = KeyError then NotFound else InternalServerError, db)
      | Inr r \<Rightarrow> r)"

subsection \<open>Deleting reference data\<close>

text \<open>
  \<^verbatim>\<open>handle_reference_delete(entity, request, params)\<close>, with \<open>entity_id\<close> the number in
  the path. The last branch of the source takes every other entity; the routes give it
  the subcategory.
\<close>

definition handle_reference_delete ::
  "database \<Rightarrow> string \<Rightarrow> int \<Rightarrow> exn + (response \<times> database)" where
  "handle_reference_delete db entity entity_id =
     (if entity = ''status'' then
        bind (count_dependencies db ''cashflows'' ''status_id'' entity_id)
          (\<lambda>n. if 0 < n then Inr (ReferencePage [(Error, StatusHasEntries)], db)
                else bind (delete_status db entity_id)
                       (\<lambda>db'. Inr (ReferencePage [(Success, ElementDeleted)], db')))
      else if entity = ''type'' then
        bind (count_dependencies db ''categories'' ''type_id'' entity_id)
          (\<lambda>n. bind (if 0 < n then Inr True
                      else bind (count_dependencies db ''cashflows'' ''type_id'' entity_id)
                             (\<lambda>m. Inr (0 < m)))
                  (\<lambda>blocked.
                     if blocked then Inr (ReferencePage [(Error, TypeHasDependents)], db)
                     else bind (delete_type db entity_id)
                            (\<lambda>db'. Inr (ReferencePage [(Success, ElementDeleted)], db'))))
      else if entity = ''category'' then
        bind (count_dependencies db ''subcategories'' ''category_id'' entity_id)
          (\<lambda>n. bind (if 0 < n then Inr True
                      else bind (count_dependencies db ''cashflows'' ''category_id'' entity_id)
                             (\<lambda>m. Inr (0 < m)))
                  (\<lambda>blocked.
                     if blocked then Inr (ReferencePage [(Error, CategoryHasDependents)], db)
                     else bind (delete_category db entity_id)
                            (\<lambda>db'. Inr (ReferencePage [(Success, ElementDeleted)], db'))))
      else
        bind (count_dependencies db ''cashflows'' ''subcategory_id'' entity_id)
          (\<lambda>n. if 0 < n then Inr (ReferencePage [(Error, SubcategoryHasEntries)], db)
                else bind (delete_subcategory db entity_id)
                       (\<lambda>db'. Inr (ReferencePage [(Success, ElementDeleted)], db'))))"

section \<open>Notions of the specification\<close>



text \<open>No entry of the ledger has the amount zero.\<close>

definition amounts_nonzero :: "database \<Rightarrow> bool" where
  "amounts_nonzero db = list_all (\<lambda>r. cf_amount_cents r \<noteq> 0) (cashflows db)"

text \<open>
  An entry satisfies a filter map when it satisfies every filter that is supplied; both
  bounds of the dates are inclusive.
\<close>

definition matches :: "(string \<Rightarrow> int option) \<Rightarrow> form \<Rightarrow> cashflow_row \<Rightarrow> bool" where
  "matches coerce filters r =
     ((supplied filters ''date_from'' \<longrightarrow> form_get filters ''date_from'' \<le> cf_recorded_on r) \<and>
      (supplied filters ''date_to'' \<longrightarrow> cf_recorded_on r \<le> form_get filters ''date_to'') \<and>
      (supplied filters ''status_id'' \<longrightarrow>
         coerce (form_get filters ''status_id'') = Some (cf_status_id r)) \<and>
      (supplied filters ''type_id'' \<longrightarrow>
         coerce (form_get filters ''type_id'') = Some (cf_type_id r)) \<and>
      (supplied filters ''category_id'' \<longrightarrow>
         coerce (form_get filters ''category_id'') = Some (cf_category_id r)) \<and>
      (supplied filters ''subcategory_id'' \<longrightarrow>
         coerce (form_get filters ''subcategory_id'') = Some (cf_subcategory_id r)))"

text \<open>The listing is newest first: by date descending, then by id descending.\<close>

definition newer_or_same :: "cashflow_row \<Rightarrow> cashflow_row \<Rightarrow> bool" where
  "newer_or_same a b =
     (cf_recorded_on b < cf_recorded_on a \<or>
      (cf_recorded_on a = cf_recorded_on b \<and> cf_id b \<le> cf_id a))"

text \<open>Every entry references rows that exist: the foreign keys of \<open>cashflows\<close>.\<close>

definition foreign_keys_hold :: "database \<Rightarrow> bool" where
  "foreign_keys_hold db = list_all (references_exist db) (cashflows db)"

text \<open>
  The four references of a form can be bound when each of the four fields that is an
  integer literal is an integer that the engine can hold.
\<close>

definition bindable_field :: "form \<Rightarrow> string \<Rightarrow> bool" where
  "bindable_field form key =
     (case parse_int (form_get form key) of None \<Rightarrow> True | Some i \<Rightarrow> bindable i)"

definition ids_bindable :: "form \<Rightarrow> bool" where
  "ids_bindable form =
     (bindable_field form ''status_id'' \<and> bindable_field form ''type_id'' \<and>
      bindable_field form ''category_id'' \<and> bindable_field form ''subcategory_id'')"

text \<open>
  A block of the validation evaluated on its own: on no data and no messages (nothing,
  should the block raise). The record and the messages that the blocks give on their
  own, the amount block for the result \<open>cents\<close> of amount parsing.
\<close>

definition alone :: "(validation \<Rightarrow> exn + validation) \<Rightarrow> validation" where
  "alone step = (case step (no_data, []) of Inl x \<Rightarrow> (no_data, []) | Inr st \<Rightarrow> st)"

definition checked_fields :: "database \<Rightarrow> form \<Rightarrow> int option \<Rightarrow> entry_data" where
  "checked_fields db form cents =
     \<lparr>recorded_on = recorded_on (fst (alone (check_recorded_on form))),
      status_id = status_id (fst (alone (check_status db form))),
      type_id = type_id (fst (alone (check_type db form))),
      category_id = category_id (fst (alone (check_category db form))),
      subcategory_id = subcategory_id (fst (alone (check_subcategory db form))),
      amount_cents = (if cents = Some 0 then None else cents),
      amount = (if cents = None \<or> cents = Some 0 then None
                else Some (form_get form ''amount'')),
      comment = Some (strip (form_get form ''comment''))\<rparr>"

definition field_messages :: "database \<Rightarrow> form \<Rightarrow> int option \<Rightarrow> message list" where
  "field_messages db form cents =
     snd (alone (check_recorded_on form)) @
     snd (alone (check_status db form)) @
     snd (alone (check_type db form)) @
     snd (alone (check_category db form)) @
     snd (alone (check_subcategory db form)) @
     (if cents = None \<or> cents = Some 0 then [AmountInvalid] else [])"

section \<open>An example database and example forms\<close>

text \<open>
  The reference data that \<^verbatim>\<open>ensure_initial_data\<close> seeds (three statuses, two types,
  three categories with two subcategories each; the names are translated), and three
  entries.
\<close>

definition example_db :: database where
  "example_db =
     \<lparr>statuses = [\<lparr>ref_id = 1, ref_name = ''Business''\<rparr>,
                  \<lparr>ref_id = 2, ref_name = ''Personal''\<rparr>,
                  \<lparr>ref_id = 3, ref_name = ''Tax''\<rparr>],
      types = [\<lparr>ref_id = 1, ref_name = ''Income''\<rparr>,
               \<lparr>ref_id = 2, ref_name = ''Expense''\<rparr>],
      categories = [\<lparr>cat_id = 1, cat_type_id = 2, cat_name = ''Infrastructure''\<rparr>,
                    \<lparr>cat_id = 2, cat_type_id = 2, cat_name = ''Marketing''\<rparr>,
                    \<lparr>cat_id = 3, cat_type_id = 1, cat_name = ''Other''\<rparr>],
      subcategories = [\<lparr>sub_id = 1, sub_category_id = 1, sub_name = ''VPS''\<rparr>,
                       \<lparr>sub_id = 2, sub_category_id = 1, sub_name = ''Proxy''\<rparr>,
                       \<lparr>sub_id = 3, sub_category_id = 2, sub_name = ''Farpost''\<rparr>,
                       \<lparr>sub_id = 4, sub_category_id = 2, sub_name = ''Avito''\<rparr>,
                       \<lparr>sub_id = 5, sub_category_id = 3, sub_name = ''Investments''\<rparr>,
                       \<lparr>sub_id = 6, sub_category_id = 3, sub_name = ''Debt''\<rparr>],
      cashflows = [\<lparr>cf_id = 1, cf_recorded_on = ''2024-01-31'', cf_status_id = 1,
                    cf_type_id = 2, cf_category_id = 1, cf_subcategory_id = 1,
                    cf_amount_cents = 150000, cf_comment = Some ''server''\<rparr>,
                   \<lparr>cf_id = 2, cf_recorded_on = ''2024-01-01'', cf_status_id = 2,
                    cf_type_id = 1, cf_category_id = 3, cf_subcategory_id = 5,
                    cf_amount_cents = 500000, cf_comment = None\<rparr>,
                   \<lparr>cf_id = 3, cf_recorded_on = ''2024-01-31'', cf_status_id = 1,
                    cf_type_id = 2, cf_category_id = 2, cf_subcategory_id = 4,
                    cf_amount_cents = 2500, cf_comment = None\<rparr>],
      cashflows_seq = 3\<rparr>"

text \<open>
  A form is built from its six fields: date, status, type, category, subcategory, amount
  (the comment is left out).
\<close>

definition entry_form ::
  "string \<Rightarrow> string \<Rightarrow> string \<Rightarrow> string \<Rightarrow> string \<Rightarrow> string \<Rightarrow> form" where
  "entry_form d s t c u a =
     map_of [(''recorded_on'', d), (''status_id'', s), (''type_id'', t),
             (''category_id'', c), (''subcategory_id'', u), (''amount'', a)]"

definition entry_record ::
  "string \<Rightarrow> int \<Rightarrow> int \<Rightarrow> int \<Rightarrow> int \<Rightarrow> int \<Rightarrow> string \<Rightarrow> entry_data" where
  "entry_record d s t c u n a =
     \<lparr>recorded_on = Some d, status_id = Some s, type_id = Some t, category_id = Some c,
      subcategory_id = Some u, amount_cents = Some n, amount = Some a, comment = Some []\<rparr>"

section \<open>Amount parsing is exact\<close>

lemma ndigits_le_iff: "0 < k \<Longrightarrow> (ndigits n \<le> k) = (n < 10 ^ k)"
proof (induction n arbitrary: k rule: ndigits.induct)
  case (1 n)
  show ?case
  proof (cases "n < 10")
    case True
    have "(10::nat) ^ 1 \<le> 10 ^ k" using "1.prems" by (intro power_increasing) simp_all
    with True have "n < 10 ^ k" by simp
    moreover have "ndigits n = 1" using True by (simp add: ndigits.simps)
    ultimately show ?thesis using "1.prems" by simp
  next
    case False
    then have nd: "ndigits n = Suc (ndigits (n div 10))" by (subst ndigits.simps) simp
    show ?thesis
    proof (cases k)
      case 0
      with "1.prems" show ?thesis by simp
    next
      case (Suc j)
      show ?thesis
      proof (cases "j = 0")
        case True
        with Suc False nd show ?thesis by (simp add: ndigits.simps[of "n div 10"])
      next
        case jpos: False
        then have "(ndigits (n div 10) \<le> j) = (n div 10 < 10 ^ j)"
          using "1.IH"[OF False, of j] by simp
        moreover have "(n div 10 < 10 ^ j) = (n < 10 ^ Suc j)"
          by (simp add: div_less_iff_less_mult mult.commute)
        ultimately show ?thesis using Suc nd by simp
      qed
    qed
  qed
qed

lemma ndigits_gt_iff: "0 < k \<Longrightarrow> (k < ndigits n) = (10 ^ k \<le> n)"
  using ndigits_le_iff[of k n] by auto

lemma ndigits_pos: "0 < ndigits n"
  by (subst ndigits.simps) simp

lemma ndigits_eq: "0 < k \<Longrightarrow> 10 ^ k \<le> n \<Longrightarrow> n < 10 ^ Suc k \<Longrightarrow> ndigits n = Suc k"
  using ndigits_le_iff[of k n] ndigits_le_iff[of "Suc k" n] by simp

lemma round_half_even_exact: "10 ^ k dvd c \<Longrightarrow> round_half_even c k = c div 10 ^ k"
  by (simp add: round_half_even_def Let_def)

lemma int_of_product:
  assumes "c < 10 ^ 28"
  shows "\<exists>p. mul_nat (Finite neg c (- 2)) 100 = Inr p \<and>
             int_of_decimal p = Inr (if neg then - int c else int c)"
proof -
  consider (small) "c * 100 < 10 ^ 28"
    | (one) "10 ^ 28 \<le> c * 100" "c * 100 < 10 ^ 29"
    | (two) "10 ^ 29 \<le> c * 100"
    by linarith
  then show ?thesis
  proof cases
    case small
    then have "\<not> prec < ndigits (c * 100)"
      using ndigits_le_iff[of 28 "c * 100"] by (simp add: prec_def)
    then show ?thesis
      by (simp add: mul_nat_def fix_prec_def int_of_decimal_def)
  next
    case one
    then have nd: "ndigits (c * 100) = 29"
      using ndigits_eq[of 28 "c * 100"] by simp
    have r: "round_half_even (c * 100) (Suc 0) = c * 10"
      using round_half_even_exact[of 1 "c * 100"] by simp
    have "c * 10 < 10 ^ 28" using one by simp
    then have "\<not> prec < ndigits (c * 10)"
      using ndigits_le_iff[of 28 "c * 10"] by (simp add: prec_def)
    then show ?thesis
      by (simp add: mul_nat_def fix_prec_def int_of_decimal_def nd r prec_def Let_def)
  next
    case two
    have "c * 100 < 10 ^ 30" using assms by simp
    with two have nd: "ndigits (c * 100) = 30"
      using ndigits_eq[of 29 "c * 100"] by simp
    have r: "round_half_even (c * 100) 2 = c"
      using round_half_even_exact[of 2 "c * 100"] by simp
    have "\<not> prec < ndigits c"
      using assms ndigits_le_iff[of 28 c] by (simp add: prec_def)
    then show ?thesis
      by (simp add: mul_nat_def fix_prec_def int_of_decimal_def nd r prec_def Let_def)
  qed
qed

lemma rescale_zero: "rescale_half_up 0 e t = 0"
proof (cases "t \<le> e")
  case True
  then show ?thesis by (simp add: rescale_half_up_def)
next
  case False
  then obtain j where j: "nat (t - e) = Suc j" by (cases "nat (t - e)") simp_all
  with False show ?thesis by (simp add: rescale_half_up_def Let_def)
qed

lemma floor_nat_half: "\<lfloor>(of_nat N :: rat) + 1 / 2\<rfloor> = int N"
  by (rule floor_unique) simp_all

lemma parse_amount_Some_cases:
  assumes "parse_amount v = Inr (Some n)"
  obtains neg c e where "Decimal (comma_to_dot (amount_text v)) = Inr (Finite neg c e)"
    and "n = (if neg then - int (rescale_half_up c e (- 2)) else int (rescale_half_up c e (- 2)))"
proof -
  from assms obtain d where d: "Decimal (comma_to_dot (amount_text v)) = Inr d"
    by (auto simp: parse_amount_def Let_def split: if_splits sum.splits)
  from assms d obtain q p where q: "quantize d (- 2) = Inr q" and p: "mul_nat q 100 = Inr p"
    and n: "int_of_decimal p = Inr n"
    by (auto simp: parse_amount_def Let_def split: if_splits sum.splits)
  show ?thesis
  proof (cases d)
    case (Finite neg c e)
    show ?thesis
    proof (cases "c = 0")
      case True
      with q Finite have "q = Finite neg 0 (- 2)" by (simp add: quantize_def)
      with p n int_of_product[of 0 neg] have "n = 0" by auto
      with True Finite d that[of neg c e] show ?thesis
        by (simp add: rescale_zero)
    next
      case False
      with q Finite have q': "q = Finite neg (rescale_half_up c e (- 2)) (- 2)"
        and "\<not> prec < ndigits (rescale_half_up c e (- 2))"
        by (auto simp: quantize_def Let_def split: if_splits)
      then have "rescale_half_up c e (- 2) < 10 ^ 28"
        using ndigits_le_iff[of 28 "rescale_half_up c e (- 2)"] by (simp add: prec_def)
      from int_of_product[OF this, of neg] p n q'
      have "n = (if neg then - int (rescale_half_up c e (- 2)) else int (rescale_half_up c e (- 2)))"
        by auto
      with Finite d that[of neg c e] show ?thesis by simp
    qed
  next
    case (Infinity neg)
    with q show ?thesis by (simp add: quantize_def)
  next
    case (NaN sg)
    with q p n show ?thesis
      by (auto simp: quantize_def mul_nat_def int_of_decimal_def split: if_splits)
  qed
qed

lemma rescale_is_half_up:
  assumes "0 < c"
  shows "int (rescale_half_up c e (- 2)) = \<lfloor>decimal_value False c e * 100 + 1 / 2\<rfloor>"
proof (cases "- 2 \<le> e")
  case True
  have "decimal_value False c e * 100 = of_nat (c * 10 ^ nat (e + 2))"
  proof (cases "0 \<le> e")
    case True
    then have "nat (e + 2) = nat e + 2" by simp
    then show ?thesis using True by (simp add: decimal_value_def power_add)
  next
    case False
    with True consider "e = - 1" | "e = - 2" by linarith
    then show ?thesis by cases (simp_all add: decimal_value_def)
  qed
  then have "\<lfloor>decimal_value False c e * 100 + 1 / 2\<rfloor> = int (c * 10 ^ nat (e + 2))"
    by (simp only: floor_nat_half)
  with True show ?thesis by (simp add: rescale_half_up_def)
next
  case False
  define k where "k = nat (- 2 - e)"
  with False have k: "0 < k" "nat (- e) = k + 2" by simp_all
  then obtain j where j: "k = Suc j" by (cases k) simp_all
  have "decimal_value False c e * 100 + 1 / 2 =
          of_int (2 * int c + 10 ^ k) / of_int (2 * 10 ^ k)"
    using False k by (simp add: decimal_value_def power_add field_simps)
  then have "\<lfloor>decimal_value False c e * 100 + 1 / 2\<rfloor> = (2 * int c + 10 ^ k) div (2 * 10 ^ k)"
    by (simp only: floor_divide_of_int_eq)
  also have "\<dots> = (2 * (int c + 5 * 10 ^ j)) div (2 * 10 ^ k)"
    using j by simp
  also have "\<dots> = (int c + 5 * 10 ^ j) div 10 ^ k"
    by (rule div_mult_mult1) simp
  finally show ?thesis using False k j
    by (simp add: rescale_half_up_def Let_def k_def zdiv_int)
qed


lemma decimal_value_pos: "0 < c \<Longrightarrow> 0 < decimal_value False c e"
  by (simp add: decimal_value_def)

lemma decimal_value_neg: "decimal_value True c e = - decimal_value False c e"
  by (simp add: decimal_value_def)

lemma half_up_cents_finite:
  "half_up_cents (decimal_value neg c e) =
     (if neg then - int (rescale_half_up c e (- 2)) else int (rescale_half_up c e (- 2)))"
proof (cases "c = 0")
  case True
  then show ?thesis
    using floor_nat_half[of 0]
    by (simp add: decimal_value_def half_up_cents_def rescale_zero)
next
  case False
  then have c: "0 < c" by simp
  show ?thesis
  proof (cases neg)
    case True
    then show ?thesis
      using decimal_value_pos[OF c, of e] rescale_is_half_up[OF c, of e]
      by (simp add: decimal_value_neg half_up_cents_def)
  next
    case False
    then show ?thesis
      using decimal_value_pos[OF c, of e] rescale_is_half_up[OF c, of e]
      by (simp add: half_up_cents_def)
  qed
qed







text \<open>
  C6. Every amount text that amount parsing accepts is a finite decimal, and the result
  is the integer number of minor units that rounding the value of that decimal half-up
  to two decimal places and multiplying by 100 gives. The model computes it with
  natural numbers and integers only.
\<close>

theorem parse_amount_half_up:
  assumes "parse_amount v = Inr (Some n)"
  shows "\<exists>neg c e. Decimal (comma_to_dot (amount_text v)) = Inr (Finite neg c e) \<and>
                   n = half_up_cents (decimal_value neg c e)"
proof -
  from assms obtain neg c e
    where "Decimal (comma_to_dot (amount_text v)) = Inr (Finite neg c e)"
      and "n = (if neg then - int (rescale_half_up c e (- 2))
                else int (rescale_half_up c e (- 2)))"
    by (rule parse_amount_Some_cases)
  then show ?thesis by (auto simp: half_up_cents_finite)
qed

lemma Decimal_eval_2: "Decimal ''-0.005'' = Inr (Finite True 5 (- 3))"
  by (simp add: Decimal_def strip_def str_space_def parse_number_def is_digit_def
      digits_val_def digit_val_def literal_emax_def literal_etiny_def ndigits.simps Let_def)

lemma parse_amount_eval_tie: "parse_amount ''-0,005'' = Inr (Some (- 1))"
proof -
  have t: "amount_text ''-0,005'' = ''-0,005''"
    by (simp add: amount_text_def strip_def str_space_def)
  have q: "quantize (Finite True 5 (- 3)) (- 2) = Inr (Finite True 1 (- 2))"
    by (simp add: quantize_def rescale_half_up_def prec_def ndigits.simps)
  obtain p where "mul_nat (Finite True 1 (- 2)) 100 = Inr p"
      and "int_of_decimal p = Inr (- 1)"
    using int_of_product[of 1 True] by auto
  then show ?thesis
    by (simp add: parse_amount_def t comma_to_dot_def Decimal_eval_2 q)
qed

theorem parse_amount_half_up_witness:
  "parse_amount ''-0,005'' = Inr (Some (- 1)) \<and>
   (\<exists>neg c e. Decimal (comma_to_dot (amount_text ''-0,005'')) = Inr (Finite neg c e) \<and>
               - 1 = half_up_cents (decimal_value neg c e))"
  using parse_amount_half_up[OF parse_amount_eval_tie] parse_amount_eval_tie by simp

section \<open>Validation block by block\<close>

lemma bind_Inr [simp]: "bind (Inr a) f = f a"
  by (simp add: bind_def)

lemma bind_Inl [simp]: "bind (Inl x) f = Inl x"
  by (simp add: bind_def)

lemma fetchone_bindable: "bindable i \<Longrightarrow> fetchone i row = Inr row"
  by (simp add: fetchone_def)

lemma fetchone_overflow: "\<not> bindable i \<Longrightarrow> fetchone i row = Inl OverflowError"
  by (simp add: fetchone_def)

lemma bindable_field_cases:
  "bindable_field form key \<Longrightarrow> parse_int (form_get form key) = Some i \<Longrightarrow> bindable i"
  by (simp add: bindable_field_def)

lemma alone_recorded_on:
  "alone (check_recorded_on form) =
     (if strip (form_get form ''recorded_on'') = [] then (no_data, [DateRequired])
      else (no_data\<lparr>recorded_on := Some (strip (form_get form ''recorded_on''))\<rparr>, []))"
  by (simp add: alone_def check_recorded_on_def Let_def)

lemma alone_status:
  "alone (check_status db form) =
     (case parse_int (form_get form ''status_id'') of
        None \<Rightarrow> (no_data, [StatusRequired])
      | Some i \<Rightarrow> if i = 0 then (no_data, [StatusRequired])
                  else if \<not> bindable i then (no_data, [])
                  else if get_status db i = None then (no_data, [StatusUnknown])
                  else (no_data\<lparr>status_id := Some i\<rparr>, []))"
  by (simp add: alone_def check_status_def fetchone_def split: option.split)

lemma alone_type:
  "alone (check_type db form) =
     (case parse_int (form_get form ''type_id'') of
        None \<Rightarrow> (no_data, [TypeRequired])
      | Some i \<Rightarrow> if i = 0 then (no_data, [TypeRequired])
                  else if \<not> bindable i then (no_data, [])
                  else if get_type db i = None then (no_data, [TypeUnknown])
                  else (no_data\<lparr>type_id := Some i\<rparr>, []))"
  by (simp add: alone_def check_type_def fetchone_def split: option.split)

lemma alone_category:
  "alone (check_category db form) =
     (case parse_int (form_get form ''category_id'') of
        None \<Rightarrow> (no_data, [CategoryRequired])
      | Some c \<Rightarrow>
          if c = 0 then (no_data, [CategoryRequired])
          else if \<not> bindable c then (no_data, [])
          else (case get_category db c of
                  None \<Rightarrow> (no_data, [CategoryUnknown])
                | Some category \<Rightarrow>
                    (no_data\<lparr>category_id := Some c\<rparr>,
                     if truthy (parse_int (form_get form ''type_id'')) \<and>
                        Some (cat_type_id category) \<noteq> parse_int (form_get form ''type_id'')
                     then [CategoryNotOfType] else [])))"
  by (simp add: alone_def check_category_def fetchone_def Let_def split: option.split)

lemma alone_subcategory:
  "alone (check_subcategory db form) =
     (case parse_int (form_get form ''subcategory_id'') of
        None \<Rightarrow> (no_data, [SubcategoryRequired])
      | Some u \<Rightarrow>
          if u = 0 then (no_data, [SubcategoryRequired])
          else if \<not> bindable u then (no_data, [])
          else (case get_subcategory db u of
                  None \<Rightarrow> (no_data, [SubcategoryUnknown])
                | Some subcategory \<Rightarrow>
                    (no_data\<lparr>subcategory_id := Some u\<rparr>,
                     (if truthy (parse_int (form_get form ''category_id'')) \<and>
                         Some (sj_category_id subcategory) \<noteq>
                           parse_int (form_get form ''category_id'')
                      then [SubcategoryNotOfCategory] else []) @
                     (if truthy (parse_int (form_get form ''type_id'')) \<and>
                         Some (sj_type_id subcategory) \<noteq> parse_int (form_get form ''type_id'')
                      then [SubcategoryNotOfType] else []))))"
  by (simp add: alone_def check_subcategory_def fetchone_def Let_def split: option.split)

lemmas alone_blocks =
  alone_recorded_on alone_status alone_type alone_category alone_subcategory

lemma check_recorded_on_state:
  "recorded_on d = None \<Longrightarrow>
   check_recorded_on form (d, es) =
     Inr (d\<lparr>recorded_on := recorded_on (fst (alone (check_recorded_on form)))\<rparr>,
          es @ snd (alone (check_recorded_on form)))"
  by (simp add: alone_def check_recorded_on_def Let_def no_data_def)

lemma check_status_state:
  "bindable_field form ''status_id'' \<Longrightarrow> status_id d = None \<Longrightarrow>
   check_status db form (d, es) =
     Inr (d\<lparr>status_id := status_id (fst (alone (check_status db form)))\<rparr>,
          es @ snd (alone (check_status db form)))"
  by (auto simp: alone_def check_status_def fetchone_def bindable_field_def no_data_def
      split: option.splits)

lemma check_type_state:
  "bindable_field form ''type_id'' \<Longrightarrow> type_id d = None \<Longrightarrow>
   check_type db form (d, es) =
     Inr (d\<lparr>type_id := type_id (fst (alone (check_type db form)))\<rparr>,
          es @ snd (alone (check_type db form)))"
  by (auto simp: alone_def check_type_def fetchone_def bindable_field_def no_data_def
      split: option.splits)

lemma check_category_state:
  "bindable_field form ''category_id'' \<Longrightarrow> category_id d = None \<Longrightarrow>
   check_category db form (d, es) =
     Inr (d\<lparr>category_id := category_id (fst (alone (check_category db form)))\<rparr>,
          es @ snd (alone (check_category db form)))"
  by (auto simp: alone_def check_category_def fetchone_def bindable_field_def no_data_def Let_def
      split: option.splits)

lemma check_subcategory_state:
  "bindable_field form ''subcategory_id'' \<Longrightarrow> subcategory_id d = None \<Longrightarrow>
   check_subcategory db form (d, es) =
     Inr (d\<lparr>subcategory_id := subcategory_id (fst (alone (check_subcategory db form)))\<rparr>,
          es @ snd (alone (check_subcategory db form)))"
  by (auto simp: alone_def check_subcategory_def fetchone_def bindable_field_def no_data_def Let_def
      split: option.splits)

text \<open>A block whose id cannot be bound raises, whatever came before.\<close>

lemma check_status_overflow:
  "\<not> bindable_field form ''status_id'' \<Longrightarrow> check_status db form st = Inl OverflowError"
  by (cases st)
    (auto simp: check_status_def fetchone_def bindable_field_def bindable_def
      split: option.splits)

lemma check_type_overflow:
  "\<not> bindable_field form ''type_id'' \<Longrightarrow> check_type db form st = Inl OverflowError"
  by (cases st)
    (auto simp: check_type_def fetchone_def bindable_field_def bindable_def
      split: option.splits)

lemma check_category_overflow:
  "\<not> bindable_field form ''category_id'' \<Longrightarrow> check_category db form st = Inl OverflowError"
  by (cases st)
    (auto simp: check_category_def fetchone_def bindable_field_def bindable_def Let_def
      split: option.splits)

lemma check_subcategory_overflow:
  "\<not> bindable_field form ''subcategory_id'' \<Longrightarrow>
   check_subcategory db form st = Inl OverflowError"
  by (cases st)
    (auto simp: check_subcategory_def fetchone_def bindable_field_def bindable_def Let_def
      split: option.splits)

lemma validate_returns:
  assumes "ids_bindable form" and "parse_amount (form_get form ''amount'') = Inr cents"
  shows "validate_entry_form db form =
           Inr (checked_fields db form cents, field_messages db form cents)"
proof -
  from assms(1) have b: "bindable_field form ''status_id''" "bindable_field form ''type_id''"
    "bindable_field form ''category_id''" "bindable_field form ''subcategory_id''"
    by (simp_all add: ids_bindable_def)
  show ?thesis
    using assms(2)
    by (cases cents)
      (simp_all add: validate_entry_form_def check_recorded_on_state check_status_state
        check_type_state check_category_state check_subcategory_state b check_amount_def
        checked_fields_def field_messages_def no_data_def)
qed

lemma validate_raises:
  assumes "ids_bindable form" and "parse_amount (form_get form ''amount'') = Inl x"
  shows "validate_entry_form db form = Inl x"
proof -
  from assms(1) have b: "bindable_field form ''status_id''" "bindable_field form ''type_id''"
    "bindable_field form ''category_id''" "bindable_field form ''subcategory_id''"
    by (simp_all add: ids_bindable_def)
  show ?thesis
    using assms(2)
    by (simp add: validate_entry_form_def check_recorded_on_state check_status_state
        check_type_state check_category_state check_subcategory_state b check_amount_def
        no_data_def)
qed

lemma validate_overflow:
  assumes "\<not> ids_bindable form"
  shows "validate_entry_form db form = Inl OverflowError"
proof (cases "bindable_field form ''status_id''")
  case False
  then show ?thesis
    by (simp add: validate_entry_form_def check_recorded_on_state check_status_overflow
        no_data_def)
next
  case s: True
  show ?thesis
  proof (cases "bindable_field form ''type_id''")
    case False
    with s show ?thesis
      by (simp add: validate_entry_form_def check_recorded_on_state check_status_state
          check_type_overflow no_data_def)
  next
    case t: True
    show ?thesis
    proof (cases "bindable_field form ''category_id''")
      case False
      with s t show ?thesis
        by (simp add: validate_entry_form_def check_recorded_on_state check_status_state
            check_type_state check_category_overflow no_data_def)
    next
      case c: True
      with s t assms have "\<not> bindable_field form ''subcategory_id''"
        by (simp add: ids_bindable_def)
      with s t c show ?thesis
        by (simp add: validate_entry_form_def check_recorded_on_state check_status_state
            check_type_state check_category_state check_subcategory_overflow no_data_def)
    qed
  qed
qed

lemma validate_cases:
  obtains (overflow) "\<not> ids_bindable form"
      and "validate_entry_form db form = Inl OverflowError"
    | (raises) x where "ids_bindable form"
      and "parse_amount (form_get form ''amount'') = Inl x"
      and "validate_entry_form db form = Inl x"
    | (returns) cents where "ids_bindable form"
      and "parse_amount (form_get form ''amount'') = Inr cents"
      and "validate_entry_form db form =
             Inr (checked_fields db form cents, field_messages db form cents)"
proof (cases "ids_bindable form")
  case False
  then show ?thesis using overflow validate_overflow by blast
next
  case True
  show ?thesis
  proof (cases "parse_amount (form_get form ''amount'')")
    case (Inl x)
    with True show ?thesis using raises validate_raises by blast
  next
    case (Inr cents)
    with True show ?thesis using returns validate_returns by blast
  qed
qed

lemma amount_message_only_of_amount:
  "AmountInvalid \<notin> set (snd (alone (check_recorded_on form)))"
  "AmountInvalid \<notin> set (snd (alone (check_status db form)))"
  "AmountInvalid \<notin> set (snd (alone (check_type db form)))"
  "AmountInvalid \<notin> set (snd (alone (check_category db form)))"
  "AmountInvalid \<notin> set (snd (alone (check_subcategory db form)))"
  by (simp_all add: alone_blocks split: option.split)

lemma amount_message_iff:
  "AmountInvalid \<in> set (field_messages db form cents) \<longleftrightarrow> cents = None \<or> cents = Some 0"
  by (simp add: field_messages_def amount_message_only_of_amount)







section \<open>Evaluation on the example database\<close>

lemma form_get_entry_form:
  "form_get (entry_form d s t c u a) ''recorded_on'' = d"
  "form_get (entry_form d s t c u a) ''status_id'' = s"
  "form_get (entry_form d s t c u a) ''type_id'' = t"
  "form_get (entry_form d s t c u a) ''category_id'' = c"
  "form_get (entry_form d s t c u a) ''subcategory_id'' = u"
  "form_get (entry_form d s t c u a) ''amount'' = a"
  "form_get (entry_form d s t c u a) ''comment'' = []"
  by (simp_all add: entry_form_def form_get_def)

lemma parse_int_eval:
  "parse_int ''1'' = Some 1"
  "parse_int ''2'' = Some 2"
  "parse_int ''9'' = Some 9"
  "parse_int [] = None"
  by (simp_all add: parse_int_def int_space_def is_digit_def digits_val_def digit_val_def
      Let_def)

lemma bindable_small: "bindable 1" "bindable 2" "bindable 9"
  by (simp_all add: bindable_def)

lemma bindable_field_entry_form:
  "bindable_field (entry_form d s t c u a) ''status_id'' =
     (case parse_int s of None \<Rightarrow> True | Some i \<Rightarrow> bindable i)"
  "bindable_field (entry_form d s t c u a) ''type_id'' =
     (case parse_int t of None \<Rightarrow> True | Some i \<Rightarrow> bindable i)"
  "bindable_field (entry_form d s t c u a) ''category_id'' =
     (case parse_int c of None \<Rightarrow> True | Some i \<Rightarrow> bindable i)"
  "bindable_field (entry_form d s t c u a) ''subcategory_id'' =
     (case parse_int u of None \<Rightarrow> True | Some i \<Rightarrow> bindable i)"
  by (simp_all add: bindable_field_def form_get_entry_form)

lemmas ids_bindable_eval =
  ids_bindable_def bindable_field_entry_form parse_int_eval bindable_small

lemma example_rows:
  "get_status example_db 1 \<noteq> None"
  "get_status example_db 9 = None"
  "get_type example_db 1 \<noteq> None"
  "get_type example_db 2 \<noteq> None"
  "get_category example_db 1 = Some \<lparr>cat_id = 1, cat_type_id = 2, cat_name = ''Infrastructure''\<rparr>"
  "get_subcategory example_db 2 =
     Some \<lparr>sj_id = 2, sj_name = ''Proxy'', sj_category_id = 1, sj_type_id = 2\<rparr>"
  by (simp_all add: get_status_def get_type_def get_category_def get_subcategory_def
      example_db_def)

lemma strip_eval:
  "strip [] = []"
  "strip ''2024-03-05'' = ''2024-03-05''"
  "strip ''yesterday'' = ''yesterday''"
  by (simp_all add: strip_def str_space_def)

lemma parse_amount_finite:
  assumes "amount_text v \<noteq> []"
    and "Decimal (comma_to_dot (amount_text v)) = Inr (Finite neg c e)"
    and "quantize (Finite neg c e) (- 2) = Inr (Finite neg c' (- 2))"
    and "c' < 10 ^ 28"
  shows "parse_amount v = Inr (Some (if neg then - int c' else int c'))"
proof -
  from int_of_product[OF assms(4), of neg] obtain p
    where "mul_nat (Finite neg c' (- 2)) 100 = Inr p"
      and "int_of_decimal p = Inr (if neg then - int c' else int c')" by blast
  with assms(1-3) show ?thesis
    by (simp add: parse_amount_def Let_def)
qed

lemma parse_amount_negative: "parse_amount ''-5'' = Inr (Some (- 500))"
proof -
  have t: "amount_text ''-5'' = ''-5''"
    by (simp add: amount_text_def strip_def str_space_def)
  have d: "Decimal ''-5'' = Inr (Finite True 5 0)"
    by (simp add: Decimal_def strip_def str_space_def parse_number_def is_digit_def
        digits_val_def digit_val_def literal_emax_def literal_etiny_def ndigits.simps
        Let_def)
  have q: "quantize (Finite True 5 0) (- 2) = Inr (Finite True 500 (- 2))"
    by (simp add: quantize_def rescale_half_up_def prec_def ndigits.simps)
  show ?thesis
    using parse_amount_finite[of "''-5''" True 5 0 500]
    by (simp add: t d q comma_to_dot_def)
qed

lemma parse_amount_ten: "parse_amount ''10'' = Inr (Some 1000)"
proof -
  have t: "amount_text ''10'' = ''10''"
    by (simp add: amount_text_def strip_def str_space_def)
  have d: "Decimal ''10'' = Inr (Finite False 10 0)"
    by (simp add: Decimal_def strip_def str_space_def parse_number_def is_digit_def
        digits_val_def digit_val_def literal_emax_def literal_etiny_def ndigits.simps
        Let_def)
  have q: "quantize (Finite False 10 0) (- 2) = Inr (Finite False 1000 (- 2))"
    by (simp add: quantize_def rescale_half_up_def prec_def ndigits.simps)
  show ?thesis
    using parse_amount_finite[of "''10''" False 10 0 1000]
    by (simp add: t d q comma_to_dot_def)
qed

lemma parse_amount_zero: "parse_amount ''0,00'' = Inr (Some 0)"
proof -
  have t: "amount_text ''0,00'' = ''0,00''"
    by (simp add: amount_text_def strip_def str_space_def)
  have d: "Decimal ''0.00'' = Inr (Finite False 0 (- 2))"
    by (simp add: Decimal_def strip_def str_space_def parse_number_def is_digit_def
        digits_val_def digit_val_def literal_emax_def literal_etiny_def ndigits.simps
        Let_def)
  have q: "quantize (Finite False 0 (- 2)) (- 2) = Inr (Finite False 0 (- 2))"
    by (simp add: quantize_def)
  show ?thesis
    using parse_amount_finite[of "''0,00''" False 0 "- 2" 0]
    by (simp add: t d q comma_to_dot_def)
qed

lemma lower_upper: "lower CHR ''N'' = CHR ''n''"
proof -
  have "(of_char (lower CHR ''N'') :: nat) = of_char CHR ''n''"
    by (simp add: lower_def)
  then show ?thesis by (rule of_char_eqI)
qed

lemma lower_small:
  "lower CHR ''a'' = CHR ''a''" "lower CHR ''b'' = CHR ''b''" "lower CHR ''c'' = CHR ''c''"
  by (simp_all add: lower_def)

lemma parse_amount_nan: "parse_amount ''NaN'' = Inl ValueError"
proof -
  have t: "amount_text ''NaN'' = ''NaN''"
    by (simp add: amount_text_def strip_def str_space_def)
  have d: "Decimal ''NaN'' = Inr (NaN False)"
    by (simp add: Decimal_def strip_def str_space_def parse_number_def parse_special_def
        is_digit_def lower_upper lower_small Let_def)
  show ?thesis
    by (simp add: parse_amount_def t d comma_to_dot_def quantize_def mul_nat_def
        int_of_decimal_def)
qed


lemma example_validation:
  assumes "parse_amount a = Inr (Some n)" and "n \<noteq> 0" and "strip d = d" and "d \<noteq> []"
  shows "validate_entry_form example_db (entry_form d ''1'' ''2'' ''1'' ''2'' a) =
           Inr (entry_record d 1 2 1 2 n a, [])"
proof -
  let ?f = "entry_form d ''1'' ''2'' ''1'' ''2'' a"
  have "parse_amount (form_get ?f ''amount'') = Inr (Some n)"
    using assms(1) by (simp add: form_get_entry_form)
  moreover have "ids_bindable ?f"
    by (simp add: ids_bindable_eval)
  ultimately have "validate_entry_form example_db ?f =
      Inr (checked_fields example_db ?f (Some n), field_messages example_db ?f (Some n))"
    by (simp add: validate_returns)
  moreover have "checked_fields example_db ?f (Some n) = entry_record d 1 2 1 2 n a"
    using assms(2-4)
    by (simp add: checked_fields_def alone_blocks form_get_entry_form parse_int_eval
        bindable_small example_rows strip_eval truthy_def entry_record_def no_data_def)
  moreover have "field_messages example_db ?f (Some n) = []"
    using assms(2-4)
    by (simp add: field_messages_def alone_blocks form_get_entry_form parse_int_eval
        bindable_small example_rows strip_eval truthy_def)
  ultimately show ?thesis by simp
qed

section \<open>Claims about the validation of entries\<close>

text \<open>
  C1, as stated: an amount that parses to a number of minor units that is zero or
  negative gets the message of the amount and is not stored. The claim fails for the
  negative amounts: the amount "-5" parses to -500 minor units, and the validation
  returns the record with -500 as \<open>amount_cents\<close> and no message.
\<close>

theorem negative_amount_is_accepted:
  "parse_amount (form_get (entry_form ''2024-03-05'' ''1'' ''2'' ''1'' ''2'' ''-5'') ''amount'') =
     Inr (Some (- 500)) \<and>
   validate_entry_form example_db (entry_form ''2024-03-05'' ''1'' ''2'' ''1'' ''2'' ''-5'') =
     Inr (entry_record ''2024-03-05'' 1 2 1 2 (- 500) ''-5'', []) \<and>
   amount_cents (entry_record ''2024-03-05'' 1 2 1 2 (- 500) ''-5'') = Some (- 500)"
  using example_validation[of "''-5''" "- 500" "''2024-03-05''"]
  by (simp add: form_get_entry_form parse_amount_negative strip_eval entry_record_def)

text \<open>
  C1, amended: for every field map whose four reference ids, where they are integers,
  are within the range that the storage engine binds (signed 64 bits), and whose amount
  parses to a number of minor units that is not positive, the validation returns (it
  does not raise); when the number is zero the messages contain the message of the
  amount and neither \<open>amount_cents\<close> nor \<open>amount\<close> is stored; when it is negative there
  is no message of the amount and the negative number is stored as \<open>amount_cents\<close>.
  (With an id outside the range the lookup raises \<^verbatim>\<open>OverflowError\<close> and the validation
  ends with it, see \<open>validate_overflow\<close>.)
\<close>

theorem zero_amount_rejected:
  assumes "ids_bindable form"
    and "parse_amount (form_get form ''amount'') = Inr (Some n)" and "n \<le> 0"
  shows "\<exists>data errors. validate_entry_form db form = Inr (data, errors) \<and>
           (if n = 0
            then AmountInvalid \<in> set errors \<and> amount_cents data = None \<and> amount data = None
            else AmountInvalid \<notin> set errors \<and> amount_cents data = Some n)"
proof -
  have "validate_entry_form db form =
          Inr (checked_fields db form (Some n), field_messages db form (Some n))"
    using assms(1,2) by (rule validate_returns)
  then show ?thesis
    by (simp add: amount_message_iff checked_fields_def)
qed

text \<open>
  C1, witness: the amount "0,00" parses to zero minor units and is rejected on the
  example database.
\<close>

theorem zero_amount_rejected_witness:
  "ids_bindable (entry_form ''2024-03-05'' ''1'' ''2'' ''1'' ''2'' ''0,00'') \<and>
   parse_amount (form_get (entry_form ''2024-03-05'' ''1'' ''2'' ''1'' ''2'' ''0,00'') ''amount'') =
     Inr (Some 0) \<and> (0::int) \<le> 0 \<and>
   (\<exists>data errors.
      validate_entry_form example_db (entry_form ''2024-03-05'' ''1'' ''2'' ''1'' ''2'' ''0,00'') =
        Inr (data, errors) \<and>
      AmountInvalid \<in> set errors \<and> amount_cents data = None \<and> amount data = None)"
  using zero_amount_rejected[of "entry_form ''2024-03-05'' ''1'' ''2'' ''1'' ''2'' ''0,00''" 0
      example_db]
  by (simp add: form_get_entry_form parse_amount_zero ids_bindable_eval)




section \<open>What the views of the entries write\<close>

lemma validated_amount:
  assumes "validate_entry_form db form = Inr (data, [])"
  shows "\<exists>n. amount_cents data = Some n \<and> n \<noteq> 0"
proof (cases rule: validate_cases[of form db])
  case overflow
  with assms show ?thesis by simp
next
  case (raises x)
  with assms show ?thesis by simp
next
  case (returns cents)
  with assms have d: "data = checked_fields db form cents"
    and e: "field_messages db form cents = []" by simp_all
  from e have "cents \<noteq> None" "cents \<noteq> Some 0"
    by (simp_all add: field_messages_def split: if_splits)
  with d show ?thesis by (cases cents) (simp_all add: checked_fields_def)
qed

lemma payload_row_amount:
  "payload_row i data = Some row \<Longrightarrow> amount_cents data = Some n \<Longrightarrow> cf_amount_cents row = n"
  by (auto simp: payload_row_def split: option.splits)

lemma create_cashflow_rows:
  assumes "create_cashflow db data = Inr (i, db')" and "amount_cents data = Some n"
  shows "\<exists>row. cashflows db' = cashflows db @ [row] \<and> cf_amount_cents row = n"
proof -
  from assms(1) obtain row where r: "payload_row (fresh_id db) data = Some row"
    and "db' = db\<lparr>cashflows := cashflows db @ [row], cashflows_seq := cf_id row\<rparr>"
    by (auto simp: create_cashflow_def split: option.splits if_splits)
  then have "cashflows db' = cashflows db @ [row]" by simp
  with payload_row_amount[OF r assms(2)] show ?thesis by blast
qed

lemma update_cashflow_rows:
  assumes "update_cashflow db i data = Inr db'" and "amount_cents data = Some n"
  shows "\<exists>row. cashflows db' = map (\<lambda>r. if cf_id r = i then row else r) (cashflows db) \<and>
               cf_amount_cents row = n"
proof -
  from assms(1) obtain row where r: "payload_row i data = Some row"
    and "db' = db\<lparr>cashflows := map (\<lambda>r. if cf_id r = i then row else r) (cashflows db)\<rparr>"
    by (auto simp: update_cashflow_def split: option.splits if_splits)
  then have "cashflows db' = map (\<lambda>r. if cf_id r = i then row else r) (cashflows db)"
    by simp
  with payload_row_amount[OF r assms(2)] show ?thesis by blast
qed

lemma view_create_entry_rows:
  assumes "row \<in> set (cashflows (snd (application db (view_create_entry db form))))"
  shows "row \<in> set (cashflows db) \<or> cf_amount_cents row \<noteq> 0"
proof (cases "validate_entry_form db form")
  case (Inl x)
  with assms show ?thesis by (simp add: view_create_entry_def application_def)
next
  case (Inr v)
  obtain data errors where v: "v = (data, errors)" by (cases v)
  show ?thesis
  proof (cases "errors = []")
    case False
    with assms Inr v show ?thesis by (simp add: view_create_entry_def application_def)
  next
    case True
    with Inr v obtain n where n: "amount_cents data = Some n" "n \<noteq> 0"
      using validated_amount by blast
    show ?thesis
    proof (cases "create_cashflow db data")
      case (Inl x)
      with assms Inr v True show ?thesis
        by (simp add: view_create_entry_def application_def)
    next
      case c: (Inr r)
      obtain i db' where r: "r = (i, db')" by (cases r)
      from create_cashflow_rows[OF c[unfolded r] n(1)] obtain new
        where "cashflows db' = cashflows db @ [new]" "cf_amount_cents new = n" by blast
      with assms Inr v True c r n(2) show ?thesis
        by (auto simp: view_create_entry_def application_def)
    qed
  qed
qed

lemma view_update_entry_rows:
  assumes "row \<in> set (cashflows (snd (application db (view_update_entry db entry_id form))))"
  shows "row \<in> set (cashflows db) \<or> cf_amount_cents row \<noteq> 0"
proof (cases "bindable entry_id \<and> get_cashflow db entry_id \<noteq> None")
  case False
  with assms show ?thesis
    by (auto simp: view_update_entry_def application_def fetchone_def split: if_splits)
next
  case True
  then have found: "fetchone entry_id (get_cashflow db entry_id) = Inr (get_cashflow db entry_id)"
    "get_cashflow db entry_id \<noteq> None"
    by (simp_all add: fetchone_def)
  show ?thesis
  proof (cases "validate_entry_form db form")
    case (Inl x)
    with assms found show ?thesis by (simp add: view_update_entry_def application_def)
  next
    case (Inr v)
    obtain data errors where v: "v = (data, errors)" by (cases v)
    show ?thesis
    proof (cases "errors = []")
      case False
      with assms found Inr v show ?thesis
        by (simp add: view_update_entry_def application_def)
    next
      case True
      with Inr v obtain n where n: "amount_cents data = Some n" "n \<noteq> 0"
        using validated_amount by blast
      show ?thesis
      proof (cases "update_cashflow db entry_id data")
        case (Inl x)
        with assms found Inr v True show ?thesis
          by (simp add: view_update_entry_def application_def)
      next
        case u: (Inr db')
        from update_cashflow_rows[OF u n(1)] obtain new
          where "cashflows db' = map (\<lambda>r. if cf_id r = entry_id then new else r) (cashflows db)"
            "cf_amount_cents new = n" by blast
        with assms found Inr v True u n(2) show ?thesis
          by (auto simp: view_update_entry_def application_def split: if_splits)
      qed
    qed
  qed
qed

lemma view_delete_entry_rows:
  assumes "row \<in> set (cashflows (snd (application db (view_delete_entry db entry_id))))"
  shows "row \<in> set (cashflows db)"
  using assms
  by (auto simp: view_delete_entry_def application_def delete_cashflow_def fetchone_def
      split: if_splits)

lemma negative_amount_validated:
  "validate_entry_form example_db (entry_form ''2024-03-05'' ''1'' ''2'' ''1'' ''2'' ''-5'') =
     Inr (entry_record ''2024-03-05'' 1 2 1 2 (- 500) ''-5'', [])"
  using example_validation[of "''-5''" "- 500" "''2024-03-05''"]
  by (simp add: parse_amount_negative strip_eval)

text \<open>
  C10. Whenever the validation returns no message, the record has an \<open>amount_cents\<close>
  that is not zero. Every row that the ledger holds after the creating, the updating
  or the deleting view was already there or has an amount that is not zero, so each of
  the three views keeps the ledger free of zero amounts. A negative amount passes the
  check: the amount "-5" is validated with -500 minor units.
\<close>

theorem validated_rows_nonzero:
  "(validate_entry_form db form = Inr (data, []) \<longrightarrow>
      (\<exists>n. amount_cents data = Some n \<and> n \<noteq> 0)) \<and>
   (\<forall>row \<in> set (cashflows (snd (application db (view_create_entry db form)))).
      row \<in> set (cashflows db) \<or> cf_amount_cents row \<noteq> 0) \<and>
   (\<forall>row \<in> set (cashflows (snd (application db (view_update_entry db entry_id form)))).
      row \<in> set (cashflows db) \<or> cf_amount_cents row \<noteq> 0) \<and>
   (\<forall>row \<in> set (cashflows (snd (application db (view_delete_entry db entry_id)))).
      row \<in> set (cashflows db)) \<and>
   (amounts_nonzero db \<longrightarrow>
      amounts_nonzero (snd (application db (view_create_entry db form))) \<and>
      amounts_nonzero (snd (application db (view_update_entry db entry_id form))) \<and>
      amounts_nonzero (snd (application db (view_delete_entry db entry_id)))) \<and>
   (\<exists>f d n. validate_entry_form example_db f = Inr (d, []) \<and>
            amount_cents d = Some n \<and> n < 0)"
proof (intro conjI)
  show "validate_entry_form db form = Inr (data, []) \<longrightarrow>
          (\<exists>n. amount_cents data = Some n \<and> n \<noteq> 0)"
    using validated_amount by blast
  show c: "\<forall>row \<in> set (cashflows (snd (application db (view_create_entry db form)))).
             row \<in> set (cashflows db) \<or> cf_amount_cents row \<noteq> 0"
    using view_create_entry_rows by blast
  show u: "\<forall>row \<in> set (cashflows (snd (application db (view_update_entry db entry_id form)))).
             row \<in> set (cashflows db) \<or> cf_amount_cents row \<noteq> 0"
    using view_update_entry_rows by blast
  show d: "\<forall>row \<in> set (cashflows (snd (application db (view_delete_entry db entry_id)))).
             row \<in> set (cashflows db)"
    using view_delete_entry_rows by blast
  show "amounts_nonzero db \<longrightarrow>
          amounts_nonzero (snd (application db (view_create_entry db form))) \<and>
          amounts_nonzero (snd (application db (view_update_entry db entry_id form))) \<and>
          amounts_nonzero (snd (application db (view_delete_entry db entry_id)))"
    using c u d unfolding amounts_nonzero_def list_all_iff by blast
  show "\<exists>f d n. validate_entry_form example_db f = Inr (d, []) \<and>
                amount_cents d = Some n \<and> n < 0"
    by (intro exI[of _ "entry_form ''2024-03-05'' ''1'' ''2'' ''1'' ''2'' ''-5''"]
        exI[of _ "entry_record ''2024-03-05'' 1 2 1 2 (- 500) ''-5''"] exI[of _ "- 500"])
      (simp add: negative_amount_validated entry_record_def)
qed

text \<open>
  C10, witness: on the example database, whose ledger has no zero amount, the form with
  the amount "10" is validated with 1000 minor units, and the ledger after the creating
  view has no zero amount.
\<close>

theorem validated_rows_nonzero_witness:
  "validate_entry_form example_db (entry_form ''2024-03-05'' ''1'' ''2'' ''1'' ''2'' ''10'') =
     Inr (entry_record ''2024-03-05'' 1 2 1 2 1000 ''10'', []) \<and>
   (\<exists>n. amount_cents (entry_record ''2024-03-05'' 1 2 1 2 1000 ''10'') = Some n \<and> n \<noteq> 0) \<and>
   amounts_nonzero example_db \<and>
   amounts_nonzero (snd (application example_db
     (view_create_entry example_db (entry_form ''2024-03-05'' ''1'' ''2'' ''1'' ''2'' ''10''))))"
proof -
  have ok: "validate_entry_form example_db
      (entry_form ''2024-03-05'' ''1'' ''2'' ''1'' ''2'' ''10'') =
        Inr (entry_record ''2024-03-05'' 1 2 1 2 1000 ''10'', [])"
    using example_validation[of "''10''" 1000 "''2024-03-05''"]
    by (simp add: parse_amount_ten strip_eval)
  have inv: "amounts_nonzero example_db"
    by (simp add: amounts_nonzero_def example_db_def)
  from validated_rows_nonzero[of example_db
      "entry_form ''2024-03-05'' ''1'' ''2'' ''1'' ''2'' ''10''"
      "entry_record ''2024-03-05'' 1 2 1 2 1000 ''10''" 1] ok inv
  show ?thesis by blast
qed

section \<open>The chain of type, category and subcategory\<close>

text \<open>
  When the validation returns, a category or a subcategory that exists but does not
  belong to the submitted type or category has its message in the list, and each of the
  four references that the record holds is the submitted one.
\<close>

lemma chain_mismatch_reported:
  assumes "validate_entry_form db form = Inr (data, errors)"
  shows "(\<forall>t c category.
            parse_int (form_get form ''type_id'') = Some t \<and> t \<noteq> 0 \<and>
            parse_int (form_get form ''category_id'') = Some c \<and> c \<noteq> 0 \<and>
            get_category db c = Some category \<and> cat_type_id category \<noteq> t \<longrightarrow>
            CategoryNotOfType \<in> set errors)"
    and "(\<forall>c u subcategory.
            parse_int (form_get form ''category_id'') = Some c \<and> c \<noteq> 0 \<and>
            parse_int (form_get form ''subcategory_id'') = Some u \<and> u \<noteq> 0 \<and>
            get_subcategory db u = Some subcategory \<and> sj_category_id subcategory \<noteq> c \<longrightarrow>
            SubcategoryNotOfCategory \<in> set errors)"
    and "(\<forall>t u subcategory.
            parse_int (form_get form ''type_id'') = Some t \<and> t \<noteq> 0 \<and>
            parse_int (form_get form ''subcategory_id'') = Some u \<and> u \<noteq> 0 \<and>
            get_subcategory db u = Some subcategory \<and> sj_type_id subcategory \<noteq> t \<longrightarrow>
            SubcategoryNotOfType \<in> set errors)"
    and "status_id data = None \<or> status_id data = parse_int (form_get form ''status_id'')"
    and "type_id data = None \<or> type_id data = parse_int (form_get form ''type_id'')"
    and "category_id data = None \<or>
         category_id data = parse_int (form_get form ''category_id'')"
    and "subcategory_id data = None \<or>
         subcategory_id data = parse_int (form_get form ''subcategory_id'')"
proof -
  obtain cents where d: "data = checked_fields db form cents"
    and e: "errors = field_messages db form cents"
    and b: "ids_bindable form"
    using assms by (cases rule: validate_cases[of form db]) auto
  from b have bf: "bindable_field form ''status_id''" "bindable_field form ''type_id''"
    "bindable_field form ''category_id''" "bindable_field form ''subcategory_id''"
    by (simp_all add: ids_bindable_def)
  show "\<forall>t c category.
            parse_int (form_get form ''type_id'') = Some t \<and> t \<noteq> 0 \<and>
            parse_int (form_get form ''category_id'') = Some c \<and> c \<noteq> 0 \<and>
            get_category db c = Some category \<and> cat_type_id category \<noteq> t \<longrightarrow>
            CategoryNotOfType \<in> set errors"
    using bf(3) by (auto simp: e field_messages_def alone_category truthy_def bindable_field_def)
  show "\<forall>c u subcategory.
            parse_int (form_get form ''category_id'') = Some c \<and> c \<noteq> 0 \<and>
            parse_int (form_get form ''subcategory_id'') = Some u \<and> u \<noteq> 0 \<and>
            get_subcategory db u = Some subcategory \<and> sj_category_id subcategory \<noteq> c \<longrightarrow>
            SubcategoryNotOfCategory \<in> set errors"
    using bf(4)
    by (auto simp: e field_messages_def alone_subcategory truthy_def bindable_field_def)
  show "\<forall>t u subcategory.
            parse_int (form_get form ''type_id'') = Some t \<and> t \<noteq> 0 \<and>
            parse_int (form_get form ''subcategory_id'') = Some u \<and> u \<noteq> 0 \<and>
            get_subcategory db u = Some subcategory \<and> sj_type_id subcategory \<noteq> t \<longrightarrow>
            SubcategoryNotOfType \<in> set errors"
    using bf(4)
    by (auto simp: e field_messages_def alone_subcategory truthy_def bindable_field_def)
  show "status_id data = None \<or> status_id data = parse_int (form_get form ''status_id'')"
    by (simp add: d checked_fields_def alone_status no_data_def split: option.split)
  show "type_id data = None \<or> type_id data = parse_int (form_get form ''type_id'')"
    by (simp add: d checked_fields_def alone_type no_data_def split: option.split)
  show "category_id data = None \<or>
        category_id data = parse_int (form_get form ''category_id'')"
    by (simp add: d checked_fields_def alone_category no_data_def split: option.split)
  show "subcategory_id data = None \<or>
        subcategory_id data = parse_int (form_get form ''subcategory_id'')"
    by (simp add: d checked_fields_def alone_subcategory no_data_def split: option.split)
qed

text \<open>
  C2. A create whose category does not belong to the submitted type must give a message
  of the validation. On the example database the category 1 belongs to the type 2; the
  form submits it with the type 1 and the amount "NaN". The validation gives no
  message: amount parsing raises \<^verbatim>\<open>ValueError\<close>, the validation ends with it, and the
  creating view answers with the page of an internal error.
\<close>

theorem chain_mismatch_lost_when_amount_raises:
  "parse_int (form_get (entry_form ''2024-03-05'' ''1'' ''1'' ''1'' ''2'' ''NaN'') ''type_id'') =
     Some 1 \<and>
   parse_int (form_get (entry_form ''2024-03-05'' ''1'' ''1'' ''1'' ''2'' ''NaN'') ''category_id'') =
     Some 1 \<and>
   map_option cat_type_id (get_category example_db 1) = Some 2 \<and>
   validate_entry_form example_db (entry_form ''2024-03-05'' ''1'' ''1'' ''1'' ''2'' ''NaN'') =
     Inl ValueError \<and>
   application example_db
     (view_create_entry example_db (entry_form ''2024-03-05'' ''1'' ''1'' ''1'' ''2'' ''NaN'')) =
     (InternalServerError, example_db)"
proof -
  have "ids_bindable (entry_form ''2024-03-05'' ''1'' ''1'' ''1'' ''2'' ''NaN'')"
    by (simp add: ids_bindable_eval)
  moreover have "parse_amount
      (form_get (entry_form ''2024-03-05'' ''1'' ''1'' ''1'' ''2'' ''NaN'') ''amount'') =
        Inl ValueError"
    by (simp add: form_get_entry_form parse_amount_nan)
  ultimately have "validate_entry_form example_db
      (entry_form ''2024-03-05'' ''1'' ''1'' ''1'' ''2'' ''NaN'') = Inl ValueError"
    by (rule validate_raises)
  then show ?thesis
    by (simp add: form_get_entry_form parse_int_eval example_rows view_create_entry_def
        application_def)
qed

section \<open>The listing of the ledger\<close>

lemma resolve_eval:
  "resolve joined_tables ''recorded_on'' = Inr ''cashflows''"
  "resolve joined_tables ''status_id'' = Inr ''cashflows''"
  "resolve joined_tables ''subcategory_id'' = Inr ''cashflows''"
  "resolve joined_tables ''type_id'' = Inl OperationalError"
  "resolve joined_tables ''category_id'' = Inl OperationalError"
  by (simp_all add: resolve_def joined_tables_def table_columns_def)

lemma resolve_all_append:
  "resolve_all (xs @ ys) = (case resolve_all xs of Inl x \<Rightarrow> Inl x | Inr u \<Rightarrow> resolve_all ys)"
  by (induction xs) (simp_all split: sum.split)

lemma resolve_all_fails:
  "c \<in> set cs \<Longrightarrow> resolve joined_tables c = Inl OperationalError \<Longrightarrow>
   (\<And>d. d \<in> set cs \<Longrightarrow> resolve joined_tables d \<noteq> Inr t \<Longrightarrow>
      resolve joined_tables d = Inl OperationalError) \<Longrightarrow>
   resolve_all cs = Inl OperationalError"
proof (induction cs)
  case Nil
  then show ?case by simp
next
  case (Cons a cs)
  show ?case
  proof (cases "resolve joined_tables a")
    case (Inl x)
    with Cons.prems(3)[of a] show ?thesis by simp
  next
    case (Inr u)
    with Cons.prems(1,2) have "c \<in> set cs" by auto
    from Cons.IH[OF this Cons.prems(2)] Cons.prems(3) Inr show ?thesis by simp
  qed
qed

lemma condition_columns:
  "set (map fst (conditions coerce filters)) \<subseteq>
     {''recorded_on'', ''status_id'', ''type_id'', ''category_id'', ''subcategory_id''}"
  by (auto simp: conditions_def)

lemma condition_columns_type:
  "supplied filters ''type_id'' \<Longrightarrow> ''type_id'' \<in> set (map fst (conditions coerce filters))"
  by (simp add: conditions_def)

lemma condition_columns_category:
  "supplied filters ''category_id'' \<Longrightarrow>
   ''category_id'' \<in> set (map fst (conditions coerce filters))"
  by (simp add: conditions_def)

lemma condition_columns_other:
  "\<not> supplied filters ''type_id'' \<Longrightarrow> \<not> supplied filters ''category_id'' \<Longrightarrow>
   set (map fst (conditions coerce filters)) \<subseteq> {''recorded_on'', ''status_id'', ''subcategory_id''}"
  by (auto simp: conditions_def)

lemma resolve_all_ok:
  "set cs \<subseteq> {''recorded_on'', ''status_id'', ''subcategory_id''} \<Longrightarrow> resolve_all cs = Inr ()"
  by (induction cs) (auto simp: resolve_eval)

text \<open>
  A filter by type or by category makes the listing fail: the condition names the
  column \<open>type_id\<close> (or \<open>category_id\<close>) without its table, and both \<open>cashflows\<close> and
  \<open>categories\<close> (or \<open>subcategories\<close>) of the join have a column of that name.
\<close>

lemma list_cashflows_ambiguous:
  assumes "supplied filters ''type_id'' \<or> supplied filters ''category_id''"
  shows "list_cashflows coerce db filters = Inl OperationalError"
proof -
  obtain c where c: "c \<in> set (map fst (conditions coerce filters))"
    and r: "resolve joined_tables c = Inl OperationalError"
    using assms condition_columns_type condition_columns_category resolve_eval(4,5)
    by blast
  have "resolve_all (map fst (conditions coerce filters)) = Inl OperationalError"
  proof (rule resolve_all_fails[OF c r, where t = "''cashflows''"])
    fix d
    assume "d \<in> set (map fst (conditions coerce filters))"
      and "resolve joined_tables d \<noteq> Inr ''cashflows''"
    with condition_columns[of coerce filters] show "resolve joined_tables d = Inl OperationalError"
      using resolve_eval by auto
  qed
  then show ?thesis by (simp add: list_cashflows_def Let_def)
qed

lemma list_all_if: "list_all P (if b then [x] else []) = (b \<longrightarrow> P x)"
  by simp

lemma conditions_matches:
  "list_all (\<lambda>c. snd c r) (conditions coerce filters) = matches coerce filters r"
  unfolding conditions_def matches_def list_all_append list_all_if snd_conv ..

lemma join_row_entry: "join_row db r = Some l \<Longrightarrow> entry l = r"
  by (auto simp: join_row_def split: option.splits)

lemma find_list_ex: "list_ex P xs \<Longrightarrow> \<exists>x. find P xs = Some x"
  by (induction xs) auto

lemma join_row_exists:
  assumes "references_exist db r"
  shows "\<exists>l. join_row db r = Some l"
proof -
  from assms obtain s t c u
    where "find (\<lambda>x. ref_id x = cf_status_id r) (statuses db) = Some s"
      and "find (\<lambda>x. ref_id x = cf_type_id r) (types db) = Some t"
      and "find (\<lambda>x. cat_id x = cf_category_id r) (categories db) = Some c"
      and "find (\<lambda>x. sub_id x = cf_subcategory_id r) (subcategories db) = Some u"
    unfolding references_exist_def by (blast dest: find_list_ex)
  then show ?thesis by (simp add: join_row_def)
qed

lemma joined_entries:
  "list_all (references_exist db) rs \<Longrightarrow> map entry (List.map_filter (join_row db) rs) = rs"
proof (induction rs)
  case Nil
  then show ?case by simp
next
  case (Cons r rs)
  then obtain l where l: "join_row db r = Some l" using join_row_exists by auto
  with Cons join_row_entry[OF l] show ?case by simp
qed

lemma order_by_desc:
  "sorted_wrt (\<lambda>a b. newer_or_same (entry a) (entry b))
     (rev (sort_key (\<lambda>l. (cf_recorded_on (entry l), cf_id (entry l))) rows))"
proof -
  let ?k = "\<lambda>l. (cf_recorded_on (entry l), cf_id (entry l))"
  have "sorted (map ?k (sort_key ?k rows))" by (rule sorted_sort_key)
  then have "sorted_wrt (\<lambda>a b. ?k a \<le> ?k b) (sort_key ?k rows)"
    by (simp add: sorted_map)
  then have "sorted_wrt (\<lambda>a b. ?k b \<le> ?k a) (rev (sort_key ?k rows))"
    by (simp add: sorted_wrt_rev)
  then show ?thesis
    by (rule sorted_wrt_mono_rel[rotated]) (auto simp: newer_or_same_def)
qed

text \<open>
  With no filter by type and none by category the listing returns: newest first, and,
  on a ledger whose references exist, exactly the entries that satisfy every supplied
  filter, each once.
\<close>

lemma list_cashflows_returns:
  assumes "\<not> supplied filters ''type_id''" and "\<not> supplied filters ''category_id''"
  shows "\<exists>rows. list_cashflows coerce db filters = Inr rows \<and>
           sorted_wrt (\<lambda>a b. newer_or_same (entry a) (entry b)) rows \<and>
           (foreign_keys_hold db \<longrightarrow>
              set (map entry rows) = {r \<in> set (cashflows db). matches coerce filters r} \<and>
              length rows = length (filter (matches coerce filters) (cashflows db)))"
proof -
  let ?k = "\<lambda>l. (cf_recorded_on (entry l), cf_id (entry l))"
  let ?joined = "List.map_filter (join_row db) (cashflows db)"
  let ?kept = "filter (\<lambda>l. matches coerce filters (entry l)) ?joined"
  have "resolve_all (map fst (conditions coerce filters)) = Inr ()"
    using condition_columns_other[OF assms] by (rule resolve_all_ok)
  then have l: "list_cashflows coerce db filters = Inr (rev (sort_key ?k ?kept))"
    by (simp add: list_cashflows_def Let_def conditions_matches)
  have e: "map entry ?kept = filter (matches coerce filters) (cashflows db)"
    if "foreign_keys_hold db"
  proof -
    have "map entry ?kept = filter (matches coerce filters) (map entry ?joined)"
      by (simp add: filter_map comp_def)
    with that show ?thesis by (simp add: joined_entries foreign_keys_hold_def)
  qed
  have "set (map entry (rev (sort_key ?k ?kept))) =
          {r \<in> set (cashflows db). matches coerce filters r}"
    if "foreign_keys_hold db"
  proof -
    have "set (map entry (rev (sort_key ?k ?kept))) = set (map entry ?kept)" by simp
    with e[OF that] show ?thesis by simp
  qed
  moreover have "length (rev (sort_key ?k ?kept)) =
          length (filter (matches coerce filters) (cashflows db))"
    if "foreign_keys_hold db"
  proof -
    have "length (rev (sort_key ?k ?kept)) = length (map entry ?kept)" by simp
    with e[OF that] show ?thesis by simp
  qed
  ultimately show ?thesis using l order_by_desc[of ?kept] by blast
qed

lemma supplied_eval:
  "supplied (map_of [(''date_from'', ''2024-01-01''), (''type_id'', ''2'')]) ''type_id''"
  "supplied (map_of [(''category_id'', ''1'')]) ''category_id''"
  by (simp_all add: supplied_def form_get_def)

text \<open>
  C3. For every filter map the listing must return the matching rows, newest first. It
  returns no rows for the filter map with the category 1: the listing fails with
  \<^verbatim>\<open>OperationalError\<close>.
\<close>

theorem list_by_category_fails:
  "list_cashflows parse_int example_db (map_of [(''category_id'', ''1'')]) =
     Inl OperationalError"
  using supplied_eval(2) by (simp add: list_cashflows_ambiguous)

text \<open>
  C4. For every combination of the six filters the listing must return exactly the
  rows that satisfy all the supplied filters. For the combination of the date from
  2024-01-01 and the type 2 it returns no rows: the listing fails with
  \<^verbatim>\<open>OperationalError\<close>.
\<close>

theorem list_by_type_fails:
  "list_cashflows parse_int example_db
     (map_of [(''date_from'', ''2024-01-01''), (''type_id'', ''2'')]) = Inl OperationalError"
  using supplied_eval(1) by (simp add: list_cashflows_ambiguous)

section \<open>Deleting reference data\<close>

lemma count_dependencies_eval:
  "count_dependencies db ''cashflows'' ''status_id'' i =
     Inr (length (filter (\<lambda>e. cf_status_id e = i) (cashflows db)))"
  "count_dependencies db ''cashflows'' ''type_id'' i =
     Inr (length (filter (\<lambda>e. cf_type_id e = i) (cashflows db)))"
  "count_dependencies db ''cashflows'' ''category_id'' i =
     Inr (length (filter (\<lambda>e. cf_category_id e = i) (cashflows db)))"
  "count_dependencies db ''cashflows'' ''subcategory_id'' i =
     Inr (length (filter (\<lambda>e. cf_subcategory_id e = i) (cashflows db)))"
  "count_dependencies db ''categories'' ''type_id'' i =
     Inr (length (filter (\<lambda>c. cat_type_id c = i) (categories db)))"
  "count_dependencies db ''subcategories'' ''category_id'' i =
     Inr (length (filter (\<lambda>s. sub_category_id s = i) (subcategories db)))"
  by (simp_all add: count_dependencies_def column_values_def filter_map comp_def)

lemma count_positive: "(filter P xs = []) = (\<not> list_ex P xs)"
  by (induction xs) auto

lemma filter_none: "\<not> list_ex P xs \<Longrightarrow> filter (\<lambda>x. \<not> P x) xs = xs"
  by (induction xs) auto

lemma filter_nothing: "\<not> list_ex P xs \<Longrightarrow> filter P xs = []"
  by (induction xs) auto

lemma delete_status_free:
  assumes "\<not> list_ex (\<lambda>e. cf_status_id e = i) (cashflows db)"
  shows "delete_status db i = Inr (db\<lparr>statuses := filter (\<lambda>r. ref_id r \<noteq> i) (statuses db)\<rparr>)"
  using assms by (simp add: delete_status_def)

lemma delete_subcategory_free:
  assumes "\<not> list_ex (\<lambda>e. cf_subcategory_id e = i) (cashflows db)"
  shows "delete_subcategory db i =
           Inr (db\<lparr>subcategories := filter (\<lambda>r. sub_id r \<noteq> i) (subcategories db)\<rparr>)"
  using assms by (simp add: delete_subcategory_def)

lemma delete_category_free:
  assumes "\<not> list_ex (\<lambda>s. sub_category_id s = i) (subcategories db)"
    and "\<not> list_ex (\<lambda>e. cf_category_id e = i) (cashflows db)"
  shows "delete_category db i =
           Inr (db\<lparr>categories := filter (\<lambda>r. cat_id r \<noteq> i) (categories db)\<rparr>)"
proof (cases "list_ex (\<lambda>r. cat_id r = i) (categories db)")
  case False
  then have "filter (\<lambda>r. cat_id r \<noteq> i) (categories db) = categories db"
    by (rule filter_none)
  with False show ?thesis by (simp add: delete_category_def)
next
  case True
  have s: "filter (\<lambda>s. sub_category_id s = i) (subcategories db) = []"
    using assms(1) by (rule filter_nothing)
  have k: "filter (\<lambda>s. sub_category_id s \<noteq> i) (subcategories db) = subcategories db"
    using assms(1) by (rule filter_none)
  from True assms(2) show ?thesis
    by (simp add: delete_category_def s k)
qed

lemma delete_type_free:
  assumes "\<not> list_ex (\<lambda>c. cat_type_id c = i) (categories db)"
    and "\<not> list_ex (\<lambda>e. cf_type_id e = i) (cashflows db)"
  shows "delete_type db i = Inr (db\<lparr>types := filter (\<lambda>r. ref_id r \<noteq> i) (types db)\<rparr>)"
proof (cases "list_ex (\<lambda>r. ref_id r = i) (types db)")
  case False
  then have "filter (\<lambda>r. ref_id r \<noteq> i) (types db) = types db"
    by (rule filter_none)
  with False show ?thesis by (simp add: delete_type_def)
next
  case True
  have c: "filter (\<lambda>c. cat_type_id c = i) (categories db) = []"
    using assms(1) by (rule filter_nothing)
  have k: "filter (\<lambda>c. cat_type_id c \<noteq> i) (categories db) = categories db"
    using assms(1) by (rule filter_none)
  from True assms(2) show ?thesis
    by (simp add: delete_type_def c k)
qed

lemma absent_unchanged:
  "get_status db i = None \<Longrightarrow> db\<lparr>statuses := filter (\<lambda>r. ref_id r \<noteq> i) (statuses db)\<rparr> = db"
  "get_type db i = None \<Longrightarrow> db\<lparr>types := filter (\<lambda>r. ref_id r \<noteq> i) (types db)\<rparr> = db"
  "get_category db i = None \<Longrightarrow>
     db\<lparr>categories := filter (\<lambda>r. cat_id r \<noteq> i) (categories db)\<rparr> = db"
  "find (\<lambda>r. sub_id r = i) (subcategories db) = None \<Longrightarrow>
     db\<lparr>subcategories := filter (\<lambda>r. sub_id r \<noteq> i) (subcategories db)\<rparr> = db"
  by (simp_all add: get_status_def get_type_def get_category_def find_None_iff
      filter_id_conv)



text \<open>
  C9. For each of the four kinds of reference data and every id for which the handler
  counts no dependent row, the deletion gives the notice of success, also when no row
  has that id (the database is then unchanged); the handler never answers with the page
  that is not found.
\<close>

theorem delete_reports_success:
  "(count_dependencies db ''cashflows'' ''status_id'' i = Inr 0 \<longrightarrow>
      (\<exists>db'. handle_reference_delete db ''status'' i =
               Inr (ReferencePage [(Success, ElementDeleted)], db') \<and>
             (get_status db i = None \<longrightarrow> db' = db))) \<and>
   (count_dependencies db ''categories'' ''type_id'' i = Inr 0 \<and>
    count_dependencies db ''cashflows'' ''type_id'' i = Inr 0 \<longrightarrow>
      (\<exists>db'. handle_reference_delete db ''type'' i =
               Inr (ReferencePage [(Success, ElementDeleted)], db') \<and>
             (get_type db i = None \<longrightarrow> db' = db))) \<and>
   (count_dependencies db ''subcategories'' ''category_id'' i = Inr 0 \<and>
    count_dependencies db ''cashflows'' ''category_id'' i = Inr 0 \<longrightarrow>
      (\<exists>db'. handle_reference_delete db ''category'' i =
               Inr (ReferencePage [(Success, ElementDeleted)], db') \<and>
             (get_category db i = None \<longrightarrow> db' = db))) \<and>
   (count_dependencies db ''cashflows'' ''subcategory_id'' i = Inr 0 \<longrightarrow>
      (\<exists>db'. handle_reference_delete db ''subcategory'' i =
               Inr (ReferencePage [(Success, ElementDeleted)], db') \<and>
             (find (\<lambda>r. sub_id r = i) (subcategories db) = None \<longrightarrow> db' = db))) \<and>
   (\<forall>entity db'. handle_reference_delete db entity i \<noteq> Inr (NotFound, db'))"
proof (intro conjI impI allI)
  assume "count_dependencies db ''cashflows'' ''status_id'' i = Inr 0"
  then have n: "\<not> list_ex (\<lambda>e. cf_status_id e = i) (cashflows db)"
    using count_positive[of "\<lambda>e. cf_status_id e = i" "cashflows db"]
    by (simp add: count_dependencies_eval)
  then have "handle_reference_delete db ''status'' i =
      Inr (ReferencePage [(Success, ElementDeleted)],
           db\<lparr>statuses := filter (\<lambda>r. ref_id r \<noteq> i) (statuses db)\<rparr>)"
    by (simp add: handle_reference_delete_def count_dependencies_eval count_positive
        delete_status_free)
  then show "\<exists>db'. handle_reference_delete db ''status'' i =
               Inr (ReferencePage [(Success, ElementDeleted)], db') \<and>
             (get_status db i = None \<longrightarrow> db' = db)"
    by (simp add: absent_unchanged)
next
  assume "count_dependencies db ''categories'' ''type_id'' i = Inr 0 \<and>
          count_dependencies db ''cashflows'' ''type_id'' i = Inr 0"
  then have n: "\<not> list_ex (\<lambda>c. cat_type_id c = i) (categories db)"
      "\<not> list_ex (\<lambda>e. cf_type_id e = i) (cashflows db)"
    using count_positive[of "\<lambda>c. cat_type_id c = i" "categories db"]
      count_positive[of "\<lambda>e. cf_type_id e = i" "cashflows db"]
    by (simp_all add: count_dependencies_eval)
  then have "handle_reference_delete db ''type'' i =
      Inr (ReferencePage [(Success, ElementDeleted)],
           db\<lparr>types := filter (\<lambda>r. ref_id r \<noteq> i) (types db)\<rparr>)"
    by (simp add: handle_reference_delete_def count_dependencies_eval count_positive
        delete_type_free)
  then show "\<exists>db'. handle_reference_delete db ''type'' i =
               Inr (ReferencePage [(Success, ElementDeleted)], db') \<and>
             (get_type db i = None \<longrightarrow> db' = db)"
    by (simp add: absent_unchanged)
next
  assume "count_dependencies db ''subcategories'' ''category_id'' i = Inr 0 \<and>
          count_dependencies db ''cashflows'' ''category_id'' i = Inr 0"
  then have n: "\<not> list_ex (\<lambda>s. sub_category_id s = i) (subcategories db)"
      "\<not> list_ex (\<lambda>e. cf_category_id e = i) (cashflows db)"
    using count_positive[of "\<lambda>s. sub_category_id s = i" "subcategories db"]
      count_positive[of "\<lambda>e. cf_category_id e = i" "cashflows db"]
    by (simp_all add: count_dependencies_eval)
  then have "handle_reference_delete db ''category'' i =
      Inr (ReferencePage [(Success, ElementDeleted)],
           db\<lparr>categories := filter (\<lambda>r. cat_id r \<noteq> i) (categories db)\<rparr>)"
    by (simp add: handle_reference_delete_def count_dependencies_eval count_positive
        delete_category_free)
  then show "\<exists>db'. handle_reference_delete db ''category'' i =
               Inr (ReferencePage [(Success, ElementDeleted)], db') \<and>
             (get_category db i = None \<longrightarrow> db' = db)"
    by (simp add: absent_unchanged)
next
  assume "count_dependencies db ''cashflows'' ''subcategory_id'' i = Inr 0"
  then have n: "\<not> list_ex (\<lambda>e. cf_subcategory_id e = i) (cashflows db)"
    using count_positive[of "\<lambda>e. cf_subcategory_id e = i" "cashflows db"]
    by (simp add: count_dependencies_eval)
  then have "handle_reference_delete db ''subcategory'' i =
      Inr (ReferencePage [(Success, ElementDeleted)],
           db\<lparr>subcategories := filter (\<lambda>r. sub_id r \<noteq> i) (subcategories db)\<rparr>)"
    by (simp add: handle_reference_delete_def count_dependencies_eval count_positive
        delete_subcategory_free)
  then show "\<exists>db'. handle_reference_delete db ''subcategory'' i =
               Inr (ReferencePage [(Success, ElementDeleted)], db') \<and>
             (find (\<lambda>r. sub_id r = i) (subcategories db) = None \<longrightarrow> db' = db)"
    by (simp add: absent_unchanged)
next
  fix entity db'
  show "handle_reference_delete db entity i \<noteq> Inr (NotFound, db')"
    by (auto simp: handle_reference_delete_def count_dependencies_eval bind_def
        split: sum.splits if_splits)
qed

text \<open>
  C9, witness: on the example database no status has the id 9 and no entry references
  it; the deletion reports success and leaves the database as it is.
\<close>

theorem delete_reports_success_witness:
  "count_dependencies example_db ''cashflows'' ''status_id'' 9 = Inr 0 \<and>
   get_status example_db 9 = None \<and>
   handle_reference_delete example_db ''status'' 9 =
     Inr (ReferencePage [(Success, ElementDeleted)], example_db)"
proof -
  have c: "count_dependencies example_db ''cashflows'' ''status_id'' 9 = Inr 0"
    by (simp add: count_dependencies_eval example_db_def)
  from delete_reports_success[of example_db 9] c example_rows(2) show ?thesis
    by auto
qed

end
